theory Spec2Isabelle
  imports Complex_Main "HOL-Library.Multiset"
begin

section \<open>Data model (renderer/src/types/index.ts)\<close>

text \<open>
  JavaScript strings are modelled as \<^typ>\<open>string\<close>, read as the UTF-8 bytes of the text:
  every operation of the sources that inspects a string looks for an ASCII character only
  (\<open>/\<close>, \<open>\\<close>, \<open>.\<close>, \<open>:\<close>) or tests for emptiness, and both agree on the bytes and on
  the code units. JavaScript numbers are modelled as \<^typ>\<open>real\<close>: finite values, exact
  arithmetic (\<open>NaN\<close>, the infinities and rounding are outside the model).

  Some fields carry a suffix or a prefix, where the source's name is taken in HOL, is an
  Isar keyword or is used by another record: \<open>id_note\<close> is \<open>NoteNode.id\<close>, \<open>notes_list\<close> is
  \<open>ProjectState.notes\<close>, \<open>resp_error\<close> is \<open>AnalyzeResponse.error\<close>, \<open>model_req\<close> is the
  \<open>model\<close> of the request body, \<open>file_content\<close> is the \<open>content\<close> of a subtitle file, \<open>p_\<close>
  marks the parameters of \<open>analyzeVideo\<close> and \<open>u_\<close> the fields of an update.
\<close>

record NoteNode =
  id_note :: string
  timestamp :: string
  seconds :: real
  title :: string
  content :: string
  imagePath :: string
  isEdited :: bool

datatype LlmProvider = Openai | Anthropic | Local

datatype ScreenshotDensity = Smart | High | Low

datatype OutputStyle = Professional | Blog | Tutorial

record AppSettings =
  llmProvider :: LlmProvider
  apiKey :: string
  baseUrl :: "string option"
  model :: string
  screenshotDensity :: ScreenshotDensity
  outputStyle :: OutputStyle

record ProjectState =
  videoPath :: "string option"
  subtitlePath :: "string option"
  subtitleContent :: "string option"
  notes_list :: "NoteNode list"
  isProcessing :: bool
  processingProgress :: real
  error :: "string option"

record HealthResponse =
  status :: string
  message :: string
  version :: string

record AnalyzeResponse =
  success :: bool
  data :: "NoteNode list"
  resp_error :: "string option"

section \<open>The project store (renderer/src/stores/useProjectStore.ts)\<close>

text \<open>\<open>Partial<NoteNode>\<close>: every field may be absent.\<close>

record NoteUpdates =
  u_id :: "string option"
  u_timestamp :: "string option"
  u_seconds :: "real option"
  u_title :: "string option"
  u_content :: "string option"
  u_imagePath :: "string option"
  u_isEdited :: "bool option"

definition no_updates :: NoteUpdates where
  "no_updates = \<lparr>u_id = None, u_timestamp = None, u_seconds = None, u_title = None,
     u_content = None, u_imagePath = None, u_isEdited = None\<rparr>"

definition initialState :: ProjectState where
  "initialState = \<lparr>videoPath = None, subtitlePath = None, subtitleContent = None,
     notes_list = [], isProcessing = False, processingProgress = 0, error = None\<rparr>"

definition setVideoPath :: "string option \<Rightarrow> ProjectState \<Rightarrow> ProjectState" where
  "setVideoPath path st = st\<lparr>videoPath := path\<rparr>"

definition setSubtitlePath :: "string option \<Rightarrow> ProjectState \<Rightarrow> ProjectState" where
  "setSubtitlePath path st = st\<lparr>subtitlePath := path\<rparr>"

definition setSubtitleContent :: "string option \<Rightarrow> ProjectState \<Rightarrow> ProjectState" where
  "setSubtitleContent c st = st\<lparr>subtitleContent := c\<rparr>"

definition setNotes :: "NoteNode list \<Rightarrow> ProjectState \<Rightarrow> ProjectState" where
  "setNotes ns st = st\<lparr>notes_list := ns\<rparr>"

text \<open>The object spread \<open>{ ...note, ...updates, isEdited: true }\<close>: a field of
  \<open>updates\<close> that is present wins over the note's, and \<open>isEdited\<close> is written last.\<close>

definition spread :: "'a \<Rightarrow> 'a option \<Rightarrow> 'a" where
  "spread old new = (case new of None \<Rightarrow> old | Some v \<Rightarrow> v)"

definition merge_note :: "NoteNode \<Rightarrow> NoteUpdates \<Rightarrow> NoteNode" where
  "merge_note note updates =
     \<lparr>id_note = spread (id_note note) (u_id updates),
      timestamp = spread (timestamp note) (u_timestamp updates),
      seconds = spread (seconds note) (u_seconds updates),
      title = spread (title note) (u_title updates),
      content = spread (content note) (u_content updates),
      imagePath = spread (imagePath note) (u_imagePath updates),
      isEdited = True\<rparr>"

definition updateNote :: "string \<Rightarrow> NoteUpdates \<Rightarrow> ProjectState \<Rightarrow> ProjectState" where
  "updateNote i updates st =
     st\<lparr>notes_list := map (\<lambda>note. if id_note note = i then merge_note note updates else note)
       (notes_list st)\<rparr>"

definition deleteNote :: "string \<Rightarrow> ProjectState \<Rightarrow> ProjectState" where
  "deleteNote i st = st\<lparr>notes_list := filter (\<lambda>note. id_note note \<noteq> i) (notes_list st)\<rparr>"

definition setProcessing :: "bool \<Rightarrow> ProjectState \<Rightarrow> ProjectState" where
  "setProcessing b st = st\<lparr>isProcessing := b\<rparr>"

definition setProgress :: "real \<Rightarrow> ProjectState \<Rightarrow> ProjectState" where
  "setProgress p st = st\<lparr>processingProgress := p\<rparr>"

definition setError :: "string option \<Rightarrow> ProjectState \<Rightarrow> ProjectState" where
  "setError e st = st\<lparr>error := e\<rparr>"

definition resetProject :: "ProjectState \<Rightarrow> ProjectState" where
  "resetProject st = initialState"

text \<open>The positions of a note list that an update changed.\<close>

definition changed_positions :: "NoteNode list \<Rightarrow> NoteNode list \<Rightarrow> nat list" where
  "changed_positions old new = filter (\<lambda>k. new ! k \<noteq> old ! k) [0..<length old]"

section \<open>JavaScript helpers\<close>

text \<open>Truthiness of a string that may be \<open>null\<close> or \<open>undefined\<close>: absent and empty are falsy.\<close>

definition truthy :: "string option \<Rightarrow> bool" where
  "truthy v = (case v of None \<Rightarrow> False | Some s \<Rightarrow> s \<noteq> [])"

text \<open>\<open>a || b\<close> with a string default, and \<open>a || undefined\<close>.\<close>

definition or_default :: "string option \<Rightarrow> string \<Rightarrow> string" where
  "or_default v d = (case v of None \<Rightarrow> d | Some s \<Rightarrow> if s \<noteq> [] then s else d)"

definition or_undefined :: "string option \<Rightarrow> string option" where
  "or_undefined v = (case v of None \<Rightarrow> None | Some s \<Rightarrow> if s \<noteq> [] then Some s else None)"

text \<open>Decimal rendering of a whole number, as \<open>Number.prototype.toString\<close> gives it.\<close>

definition digit_char :: "nat \<Rightarrow> char" where
  "digit_char n = ''0123456789'' ! n"

fun show_nat :: "nat \<Rightarrow> string" where
  "show_nat n =
     (if n < 10 then [digit_char n] else show_nat (n div 10) @ [digit_char (n mod 10)])"

declare show_nat.simps [simp del]

definition number_toString :: "int \<Rightarrow> string" where
  "number_toString k = (if k < 0 then CHR ''-'' # show_nat (nat (- k)) else show_nat (nat k))"

definition padStart :: "nat \<Rightarrow> char \<Rightarrow> string \<Rightarrow> string" where
  "padStart n c s = replicate (n - length s) c @ s"

text \<open>The remainder operator \<open>%\<close>: the result has the sign of the dividend.\<close>

definition js_trunc :: "real \<Rightarrow> int" where
  "js_trunc x = (if 0 \<le> x then \<lfloor>x\<rfloor> else \<lceil>x\<rceil>)"

definition js_rem :: "real \<Rightarrow> real \<Rightarrow> real" where
  "js_rem a b = a - b * of_int (js_trunc (a / b))"

text \<open>\<open>Array.prototype.join\<close> and \<open>Array.prototype.push\<close>.\<close>

fun join :: "string \<Rightarrow> string list \<Rightarrow> string" where
  "join sep [] = []"
| "join sep [l] = l"
| "join sep (l # ls) = l @ sep @ join sep ls"

definition push :: "string \<Rightarrow> string list \<Rightarrow> string list" where
  "push l lines = lines @ [l]"

text \<open>A promise that has settled: resolved with a value, or rejected with an error of which
  the callers read the \<open>message\<close> only (it may be missing).\<close>

datatype 'a promise = Resolved 'a | Rejected "string option"

section \<open>Messages\<close>

text \<open>The user-visible texts of the sources, as their UTF-8 bytes.\<close>

definition MSG_NEED_FILES :: string where
  "MSG_NEED_FILES = [CHR 0xE8, CHR 0xAF, CHR 0xB7, CHR 0xE5, CHR 0x85, CHR 0x88, CHR 0xE4,
     CHR 0xB8, CHR 0x8A, CHR 0xE4, CHR 0xBC, CHR 0xA0, CHR 0xE8, CHR 0xA7, CHR 0x86, CHR 0xE9,
     CHR 0xA2, CHR 0x91, CHR 0xE5, CHR 0x92, CHR 0x8C, CHR 0xE5, CHR 0xAD, CHR 0x97, CHR 0xE5,
     CHR 0xB9, CHR 0x95, CHR 0xE6, CHR 0x96, CHR 0x87, CHR 0xE4, CHR 0xBB, CHR 0xB6]"

definition MSG_NEED_API_KEY :: string where
  "MSG_NEED_API_KEY = [CHR 0xE8, CHR 0xAF, CHR 0xB7, CHR 0xE5, CHR 0x85, CHR 0x88, CHR 0xE5,
     CHR 0x9C, CHR 0xA8, CHR 0xE8, CHR 0xAE, CHR 0xBE, CHR 0xE7, CHR 0xBD, CHR 0xAE, CHR 0xE4,
     CHR 0xB8, CHR 0xAD, CHR 0xE9, CHR 0x85, CHR 0x8D, CHR 0xE7, CHR 0xBD, CHR 0xAE]
     @ '' API Key''"

definition MSG_FAILED :: string where
  "MSG_FAILED = [CHR 0xE5, CHR 0xA4, CHR 0x84, CHR 0xE7, CHR 0x90, CHR 0x86, CHR 0xE5,
     CHR 0xA4, CHR 0xB1, CHR 0xE8, CHR 0xB4, CHR 0xA5]"

definition MSG_GENERATED_BY :: string where
  "MSG_GENERATED_BY = ''> '' @ [CHR 0xE7, CHR 0x94, CHR 0xB1] @ '' Video2Note ''
     @ [CHR 0xE8, CHR 0x87, CHR 0xAA, CHR 0xE5, CHR 0x8A, CHR 0xA8, CHR 0xE7, CHR 0x94,
        CHR 0x9F, CHR 0xE6, CHR 0x88, CHR 0x90]"

definition MSG_CONTENTS :: string where
  "MSG_CONTENTS = ''## '' @ [CHR 0xE7, CHR 0x9B, CHR 0xAE, CHR 0xE5, CHR 0xBD, CHR 0x95]"

definition MSG_TIMESTAMP :: string where
  "MSG_TIMESTAMP = ''**'' @ [CHR 0xE6, CHR 0x97, CHR 0xB6, CHR 0xE9, CHR 0x97, CHR 0xB4,
     CHR 0xE6, CHR 0x88, CHR 0xB3] @ ''**: `''"

section \<open>The API client (renderer/src/api/client.ts)\<close>

text \<open>
  \<open>apiClient\<close> is created with \<open>timeout: 300000\<close>. What the Python backend does with a
  request is a parameter: how long it takes to answer and how the request would settle
  without the timeout. A request that takes longer than the timeout is rejected by the
  client, with the HTTP library's timeout message.
\<close>

definition API_TIMEOUT_MS :: nat where
  "API_TIMEOUT_MS = 300000"

definition TIMEOUT_MESSAGE :: string where
  "TIMEOUT_MESSAGE = ''timeout of '' @ show_nat API_TIMEOUT_MS @ ''ms exceeded''"

record 'a backend_run =
  duration_ms :: nat
  settles :: "'a promise"

definition apiClient_request :: "'a backend_run \<Rightarrow> 'a promise" where
  "apiClient_request run =
     (if API_TIMEOUT_MS < duration_ms run then Rejected (Some TIMEOUT_MESSAGE)
      else settles run)"

definition checkHealth :: "HealthResponse backend_run \<Rightarrow> HealthResponse promise" where
  "checkHealth backend = apiClient_request backend"

record AnalyzeParams =
  p_videoPath :: string
  p_subtitleText :: string
  p_apiKey :: string
  p_stylePrompt :: string
  p_baseUrl :: "string option"
  p_model :: "string option"

text \<open>The JSON body posted to \<open>/analyze_video\<close>; a field that is \<open>undefined\<close> is
  \<open>None\<close>.\<close>

record AnalyzeRequest =
  video_path :: string
  subtitle_text :: string
  api_key :: string
  style :: string
  base_url :: "string option"
  model_req :: string

definition DEFAULT_MODEL :: string where
  "DEFAULT_MODEL = ''gpt-4o-mini''"

definition analyze_body :: "AnalyzeParams \<Rightarrow> AnalyzeRequest" where
  "analyze_body params =
     \<lparr>video_path = p_videoPath params,
      subtitle_text = p_subtitleText params,
      api_key = p_apiKey params,
      style = p_stylePrompt params,
      base_url = p_baseUrl params,
      model_req = or_default (p_model params) DEFAULT_MODEL\<rparr>"

definition analyzeVideo ::
  "(AnalyzeRequest \<Rightarrow> AnalyzeResponse backend_run) \<Rightarrow> AnalyzeParams \<Rightarrow> AnalyzeResponse promise"
where
  "analyzeVideo backend params = apiClient_request (backend (analyze_body params))"

section \<open>The setup page (renderer/src/pages/SetupPage.tsx)\<close>

datatype HealthStatus = Idle | Checking | Ok | Error

record SetupLocal =
  settingsOpen :: bool
  healthStatus :: HealthStatus
  isDragging :: bool
  isProcessingLocal :: bool
  errorMsg :: string

text \<open>The page reads two stores and its own state; \<open>route\<close> is where \<open>navigate\<close> last
  went.\<close>

record SetupPage =
  project :: ProjectState
  settings :: AppSettings
  ui :: SetupLocal
  route :: string

definition setHealthStatus :: "HealthStatus \<Rightarrow> SetupPage \<Rightarrow> SetupPage" where
  "setHealthStatus h pg = pg\<lparr>ui := (ui pg)\<lparr>healthStatus := h\<rparr>\<rparr>"

definition setErrorMsg :: "string \<Rightarrow> SetupPage \<Rightarrow> SetupPage" where
  "setErrorMsg m pg = pg\<lparr>ui := (ui pg)\<lparr>errorMsg := m\<rparr>\<rparr>"

definition setSettingsOpen :: "bool \<Rightarrow> SetupPage \<Rightarrow> SetupPage" where
  "setSettingsOpen b pg = pg\<lparr>ui := (ui pg)\<lparr>settingsOpen := b\<rparr>\<rparr>"

definition setIsProcessingLocal :: "bool \<Rightarrow> SetupPage \<Rightarrow> SetupPage" where
  "setIsProcessingLocal b pg = pg\<lparr>ui := (ui pg)\<lparr>isProcessingLocal := b\<rparr>\<rparr>"

definition in_store :: "(ProjectState \<Rightarrow> ProjectState) \<Rightarrow> SetupPage \<Rightarrow> SetupPage" where
  "in_store f pg = pg\<lparr>project := f (project pg)\<rparr>"

definition navigate :: "string \<Rightarrow> SetupPage \<Rightarrow> SetupPage" where
  "navigate r pg = pg\<lparr>route := r\<rparr>"

text \<open>\<open>handleCheckHealth\<close>: the page after \<open>setHealthStatus('checking')\<close> and the page once
  the request has settled.\<close>

definition handleCheckHealth :: "HealthResponse backend_run \<Rightarrow> SetupPage \<Rightarrow> SetupPage list" where
  "handleCheckHealth backend pg =
     (let pg1 = setHealthStatus Checking pg;
          pg2 = (case checkHealth backend of
                   Resolved _ \<Rightarrow> setHealthStatus Ok pg1
                 | Rejected _ \<Rightarrow> setHealthStatus Error pg1)
      in [pg1, pg2])"

text \<open>The style handed over as \<open>stylePrompt\<close> is the string of the setting's value.\<close>

fun style_string :: "OutputStyle \<Rightarrow> string" where
  "style_string Professional = ''professional''"
| "style_string Blog = ''blog''"
| "style_string Tutorial = ''tutorial''"

definition start_params :: "SetupPage \<Rightarrow> AnalyzeParams" where
  "start_params pg =
     \<lparr>p_videoPath = the (videoPath (project pg)),
      p_subtitleText = the (subtitleContent (project pg)),
      p_apiKey = apiKey (settings pg),
      p_stylePrompt = style_string (outputStyle (settings pg)),
      p_baseUrl = or_undefined (baseUrl (settings pg)),
      p_model = Some (model (settings pg))\<rparr>"

text \<open>\<open>handleStart\<close>: the page when the handler is done, and the bodies it posted. The two
  uses of \<^const>\<open>the\<close> in \<^const>\<open>start_params\<close> are behind the guard on both values.\<close>

definition handleStart ::
  "(AnalyzeRequest \<Rightarrow> AnalyzeResponse backend_run) \<Rightarrow> SetupPage \<Rightarrow> SetupPage \<times> AnalyzeRequest list"
where
  "handleStart backend pg =
     (if \<not> truthy (videoPath (project pg)) \<or> \<not> truthy (subtitleContent (project pg))
      then (setErrorMsg MSG_NEED_FILES pg, [])
      else if \<not> truthy (Some (apiKey (settings pg)))
      then (setSettingsOpen True (setErrorMsg MSG_NEED_API_KEY pg), [])
      else
        let pg1 = setErrorMsg [] (in_store (setProcessing True) (setIsProcessingLocal True pg));
            pg2 = (case analyzeVideo backend (start_params pg) of
                     Resolved result \<Rightarrow>
                       if success result
                       then navigate ''/editor'' (in_store (setNotes (data result)) pg1)
                       else setErrorMsg (or_default (resp_error result) MSG_FAILED) pg1
                   | Rejected err \<Rightarrow> setErrorMsg (or_default err MSG_FAILED) pg1)
        in (in_store (setProcessing False) (setIsProcessingLocal False pg2),
            [analyze_body (start_params pg)]))"

section \<open>The editor page (renderer/src/pages/EditorPage.tsx)\<close>

record EditorPage =
  store :: ProjectState
  isPlaying :: bool
  currentTime :: real
  activeNoteId :: "string option"

text \<open>\<open>notes.find((note, index) => ...)\<close>: the first note at or before the current time whose
  successor in the list, if there is one, is after it.\<close>

fun find_current :: "real \<Rightarrow> NoteNode list \<Rightarrow> NoteNode option" where
  "find_current t [] = None"
| "find_current t [note] = (if seconds note \<le> t then Some note else None)"
| "find_current t (note # nextNote # rest) =
     (if seconds note \<le> t \<and> seconds nextNote > t then Some note
      else find_current t (nextNote # rest))"

definition handleTimeUpdate :: "real \<Rightarrow> EditorPage \<Rightarrow> EditorPage" where
  "handleTimeUpdate video_time ed =
     (let ed1 = ed\<lparr>currentTime := video_time\<rparr>
      in case find_current video_time (notes_list (store ed)) of
           Some currentNote \<Rightarrow> ed1\<lparr>activeNoteId := Some (id_note currentNote)\<rparr>
         | None \<Rightarrow> ed1)"

text \<open>The note cards call \<open>onUpdate({ title })\<close>, \<open>onUpdate({ content })\<close> and \<open>onDelete\<close>.\<close>

definition onUpdate :: "NoteNode \<Rightarrow> NoteUpdates \<Rightarrow> EditorPage \<Rightarrow> EditorPage" where
  "onUpdate note updates ed = ed\<lparr>store := updateNote (id_note note) updates (store ed)\<rparr>"

definition only_title :: "string \<Rightarrow> NoteUpdates" where
  "only_title v = no_updates\<lparr>u_title := Some v\<rparr>"

definition only_content :: "string \<Rightarrow> NoteUpdates" where
  "only_content v = no_updates\<lparr>u_content := Some v\<rparr>"

definition onDelete :: "NoteNode \<Rightarrow> EditorPage \<Rightarrow> EditorPage" where
  "onDelete note ed = ed\<lparr>store := deleteNote (id_note note) (store ed)\<rparr>"

definition formatTime :: "real \<Rightarrow> string" where
  "formatTime secs =
     (let h = \<lfloor>secs / 3600\<rfloor>;
          m = \<lfloor>js_rem secs 3600 / 60\<rfloor>;
          s = \<lfloor>js_rem secs 60\<rfloor>
      in if h > 0
         then number_toString h @ '':'' @ padStart 2 (CHR ''0'') (number_toString m) @ '':''
                @ padStart 2 (CHR ''0'') (number_toString s)
         else number_toString m @ '':'' @ padStart 2 (CHR ''0'') (number_toString s))"

section \<open>The export page (renderer/src/pages/ExportPage.tsx)\<close>

datatype ImageMode = Path | Base64

text \<open>\<open>s.split(/[/\\]/).pop()\<close>: what follows the last slash or backslash.\<close>

definition is_separator :: "char \<Rightarrow> bool" where
  "is_separator c = (c = CHR ''/'' \<or> c = CHR 0x5C)"

definition last_segment :: "string \<Rightarrow> string" where
  "last_segment s = rev (takeWhile (\<lambda>c. \<not> is_separator c) (rev s))"

text \<open>\<open>s.replace(/\.[^.]+$/, '')\<close>: the last dot and what follows it are removed when at
  least one character follows it.\<close>

definition strip_extension :: "string \<Rightarrow> string" where
  "strip_extension s =
     (let ext = takeWhile (\<lambda>c. c \<noteq> CHR ''.'') (rev s)
      in if CHR ''.'' \<in> set s \<and> ext \<noteq> [] then take (length s - length ext - 1) s else s)"

definition videoName :: "string option \<Rightarrow> string" where
  "videoName vp =
     or_default (case vp of None \<Rightarrow> None | Some p \<Rightarrow> Some (strip_extension (last_segment p)))
       ''Video Notes''"

text \<open>\<open>timestamp.replace(/:/g, '')\<close>.\<close>

definition anchor :: "string \<Rightarrow> string" where
  "anchor ts = filter (\<lambda>c. c \<noteq> CHR '':'') ts"

definition toc_entry :: "nat \<Rightarrow> NoteNode \<Rightarrow> string" where
  "toc_entry index note =
     show_nat (index + 1) @ ''. ['' @ title note @ ''](#'' @ anchor (timestamp note) @ '')''"

definition image_line :: "NoteNode \<Rightarrow> string" where
  "image_line note = ''!['' @ title note @ ''](''  @ imagePath note @ '')''"

text \<open>The two \<open>notes.forEach\<close> loops, each pushing onto \<open>lines\<close>.\<close>

fun toc_forEach :: "nat \<Rightarrow> NoteNode list \<Rightarrow> string list \<Rightarrow> string list" where
  "toc_forEach index [] lines = lines"
| "toc_forEach index (note # rest) lines =
     toc_forEach (index + 1) rest (push (toc_entry index note) lines)"

definition push_note :: "ImageMode \<Rightarrow> NoteNode \<Rightarrow> string list \<Rightarrow> string list" where
  "push_note imageMode note lines =
     (let lines1 = fold push
            [''## '' @ title note @ '' {#'' @ anchor (timestamp note) @ ''}'',
             [],
             MSG_TIMESTAMP @ timestamp note @ ''`'',
             []] lines;
          lines2 =
            (if imagePath note \<noteq> []
             then push []
                    (if imageMode = Path then push (image_line note) lines1
                     else push (image_line note) lines1)
             else lines1)
      in fold push [content note, [], ''---'', []] lines2)"

fun notes_forEach :: "ImageMode \<Rightarrow> NoteNode list \<Rightarrow> string list \<Rightarrow> string list" where
  "notes_forEach imageMode [] lines = lines"
| "notes_forEach imageMode (note # rest) lines =
     notes_forEach imageMode rest (push_note imageMode note lines)"

definition markdown_lines :: "NoteNode list \<Rightarrow> string option \<Rightarrow> ImageMode \<Rightarrow> string list" where
  "markdown_lines ns vp imageMode =
     (let lines1 = fold push [''# '' @ videoName vp, [], MSG_GENERATED_BY, [], ''---'', []] [];
          lines2 = fold push [MSG_CONTENTS, []] lines1;
          lines3 = toc_forEach 0 ns lines2;
          lines4 = fold push [[], ''---'', []] lines3
      in notes_forEach imageMode ns lines4)"

definition generateMarkdown :: "NoteNode list \<Rightarrow> string option \<Rightarrow> ImageMode \<Rightarrow> string" where
  "generateMarkdown ns vp imageMode = join [CHR 0x0A] (markdown_lines ns vp imageMode)"

text \<open>What one note adds to the document, and the entries of the table of contents.\<close>

definition note_block :: "NoteNode \<Rightarrow> string list" where
  "note_block note =
     [''## '' @ title note @ '' {#'' @ anchor (timestamp note) @ ''}'',
      [],
      MSG_TIMESTAMP @ timestamp note @ ''`'',
      []]
     @ (if imagePath note \<noteq> [] then [image_line note, []] else [])
     @ [content note, [], ''---'', []]"

definition toc_entries :: "NoteNode list \<Rightarrow> string list" where
  "toc_entries ns = map (\<lambda>(index, note). toc_entry index note) (enumerate 0 ns)"

section \<open>The file dialogs of the main process (main/index.ts)\<close>

record OpenDialogReturnValue =
  canceled :: bool
  filePaths :: "string list"

record SubtitleFile =
  path :: string
  file_content :: string

text \<open>\<open>fs.readFileSync(filePath, 'utf-8')\<close> returns the decoded text of a file it can
  read and throws otherwise: the file system gives the text of the readable files.\<close>

type_synonym filesystem = "string \<Rightarrow> string option"

datatype fs_error = ReadFailed string

definition readFileSync :: "filesystem \<Rightarrow> string \<Rightarrow> fs_error + string" where
  "readFileSync fs filePath = (case fs filePath of None \<Rightarrow> Inl (ReadFailed filePath) | Some text \<Rightarrow> Inr text)"

definition select_video_file :: "OpenDialogReturnValue \<Rightarrow> string option" where
  "select_video_file result =
     (if canceled result \<or> length (filePaths result) = 0 then None
      else Some (filePaths result ! 0))"

definition select_subtitle_file ::
  "filesystem \<Rightarrow> OpenDialogReturnValue \<Rightarrow> fs_error + SubtitleFile option"
where
  "select_subtitle_file fs result =
     (if canceled result \<or> length (filePaths result) = 0 then Inr None
      else
        let filePath = filePaths result ! 0
        in case readFileSync fs filePath of
             Inl e \<Rightarrow> Inl e
           | Inr text \<Rightarrow> Inr (Some \<lparr>path = filePath, file_content = text\<rparr>))"

section \<open>The synthesis pipeline of the backend\<close>

text \<open>
  The Python backend (\<open>python_backend/\<close>: \<open>app.py\<close>, \<open>services/llm_service.py\<close>,
  \<open>services/video_service.py\<close>, \<open>services/utils.py\<close>) is not among the sources. The parts
  of it that the properties below are about are modelled from the specification's words.
\<close>

text \<open>Modelled from the spec: the Moment record of section 3 (the backend's type is missing):
  seconds, title and content of a candidate note.\<close>

record Moment =
  m_seconds :: real
  m_title :: string
  m_content :: string

text \<open>Modelled from the spec: the FrameResult of section 3 (the backend's type is missing):
  a success with path, sharpness and offset in seconds, or a failure with its reason.\<close>

datatype FailureReason = CorruptFile | OutOfRangeSeek | CodecError

datatype FrameResult =
    Success string real real
  | Failure FailureReason

text \<open>Modelled from the spec: the zero padding of the Note Assembler's timestamps
  (section 4.4), missing from the sources: a part below ten gets a leading zero.\<close>

definition two_digits :: "nat \<Rightarrow> string" where
  "two_digits n = (if n < 10 then CHR ''0'' # show_nat n else show_nat n)"

text \<open>Modelled from the spec: the timestamp formatting of the Note Assembler (section 4.4),
  missing from the sources: floor division of the whole seconds into hours, minutes and
  seconds, the parts after the leading one zero-padded, the hours part left out when it
  is zero.\<close>

definition format_timestamp :: "real \<Rightarrow> string" where
  "format_timestamp secs =
     (let t = nat \<lfloor>secs\<rfloor>;
          hours = t div 3600;
          minutes = (t mod 3600) div 60;
          s = t mod 60
      in if hours = 0 then show_nat minutes @ '':'' @ two_digits s
         else show_nat hours @ '':'' @ two_digits minutes @ '':'' @ two_digits s)"

text \<open>Modelled from the spec: the id of a note (section 3), missing from the sources: a
  string derived from the position of the moment and from its seconds, with no random
  part.\<close>

definition note_id :: "nat \<Rightarrow> real \<Rightarrow> string" where
  "note_id position secs = ''note_'' @ show_nat position @ ''_'' @ number_toString \<lfloor>secs\<rfloor>"

text \<open>Modelled from the spec: the note that the Note Assembler (section 4.4), missing from
  the sources, makes of a moment and its frame result: the image path is empty when the
  extraction failed, and \<open>edited\<close> is false.\<close>

definition make_note :: "nat \<Rightarrow> Moment \<Rightarrow> FrameResult \<Rightarrow> NoteNode" where
  "make_note position m fr =
     \<lparr>id_note = note_id position (m_seconds m),
      timestamp = format_timestamp (m_seconds m),
      seconds = m_seconds m,
      title = m_title m,
      content = m_content m,
      imagePath = (case fr of Success p sharpness offset \<Rightarrow> p | Failure reason \<Rightarrow> []),
      isEdited = False\<rparr>"

text \<open>Modelled from the spec: the Note Assembler (sections 4.4 and 5), missing from the
  sources: each moment is paired with the frame result of its index, and the notes are
  sorted by seconds before they are returned.\<close>

definition assemble :: "Moment list \<Rightarrow> (nat \<Rightarrow> FrameResult) \<Rightarrow> NoteNode list" where
  "assemble ms frames =
     sort_key seconds (map (\<lambda>(i, m). make_note i m (frames i)) (enumerate 0 ms))"

text \<open>Modelled from the spec: the duplicate test of the Key-Moment Extractor (section 3),
  missing from the sources: two moments are duplicates when they are closer than the
  minimum separation threshold.\<close>

definition within_threshold :: "real \<Rightarrow> Moment \<Rightarrow> Moment \<Rightarrow> bool" where
  "within_threshold th a b = (\<bar>m_seconds b - m_seconds a\<bar> < th)"

text \<open>Modelled from the spec: the deduplication of the Key-Moment Extractor (section 3),
  missing from the sources: going through the sorted candidates, a moment that is a
  duplicate of a candidate before it is dropped.\<close>

fun drop_duplicates :: "real \<Rightarrow> Moment list \<Rightarrow> Moment list \<Rightarrow> Moment list" where
  "drop_duplicates th earlier [] = []"
| "drop_duplicates th earlier (m # ms) =
     (if list_ex (\<lambda>e. within_threshold th e m) earlier
      then drop_duplicates th (earlier @ [m]) ms
      else m # drop_duplicates th (earlier @ [m]) ms)"

text \<open>Modelled from the spec: the merge step of the Key-Moment Extractor (sections 3 and
  4.2), missing from the sources: the moments of all chunks are merged in chunk order,
  sorted ascending by seconds (stably, so that of two equal readings the first chunk's
  comes first) and deduplicated.\<close>

definition merge_moments :: "real \<Rightarrow> Moment list list \<Rightarrow> Moment list" where
  "merge_moments th chunks = drop_duplicates th [] (sort_key m_seconds (concat chunks))"

text \<open>The invariant of a delivered note list (section 3): sorted ascending by seconds, ids
  pairwise distinct.\<close>

definition notes_invariant :: "NoteNode list \<Rightarrow> bool" where
  "notes_invariant ns = (sorted (map seconds ns) \<and> distinct (map id_note ns))"

section \<open>Vocabulary of the statements\<close>

text \<open>The guards of \<open>handleStart\<close>: a video path, a subtitle text and an API key are set.\<close>

definition start_ready :: "SetupPage \<Rightarrow> bool" where
  "start_ready pg =
     (truthy (videoPath (project pg)) \<and> truthy (subtitleContent (project pg))
      \<and> apiKey (settings pg) \<noteq> [])"

text \<open>The two shapes of a result: the response says \<open>success\<close> and holds the notes, or it
  says failure and holds an error message (the response type has no field for an error
  code, so this is the most that an error object of the response can carry).\<close>

definition delivers_notes :: "AnalyzeResponse promise \<Rightarrow> bool" where
  "delivers_notes r = (case r of Resolved result \<Rightarrow> success result | Rejected err \<Rightarrow> False)"

definition delivers_error_message :: "AnalyzeResponse promise \<Rightarrow> bool" where
  "delivers_error_message r =
     (case r of Resolved result \<Rightarrow> \<not> success result \<and> truthy (resp_error result)
      | Rejected err \<Rightarrow> False)"

section \<open>Sample notes\<close>

definition note_a :: NoteNode where
  "note_a = \<lparr>id_note = ''a'', timestamp = ''0:10'', seconds = 10, title = ''Intro'',
     content = ''first'', imagePath = ''/tmp/a.jpg'', isEdited = False\<rparr>"

definition note_b :: NoteNode where
  "note_b = \<lparr>id_note = ''b'', timestamp = ''1:05'', seconds = 65, title = ''Setup'',
     content = ''second'', imagePath = '''', isEdited = False\<rparr>"

definition note_a2 :: NoteNode where
  "note_a2 = \<lparr>id_note = ''a'', timestamp = ''2:00'', seconds = 120, title = ''Again'',
     content = ''third'', imagePath = '''', isEdited = False\<rparr>"

definition retitle :: NoteUpdates where
  "retitle = no_updates\<lparr>u_title := Some ''New title''\<rparr>"

definition sample_settings :: AppSettings where
  "sample_settings = \<lparr>llmProvider = Openai, apiKey = ''sk-test'', baseUrl = Some '''',
     model = ''gpt-4o'', screenshotDensity = Smart, outputStyle = Blog\<rparr>"

definition sample_ui :: SetupLocal where
  "sample_ui = \<lparr>settingsOpen = False, healthStatus = Idle, isDragging = False,
     isProcessingLocal = False, errorMsg = ''''\<rparr>"

definition sample_page :: SetupPage where
  "sample_page =
     \<lparr>project = initialState\<lparr>videoPath := Some ''/v/talk.mp4'',
          subtitlePath := Some ''/v/talk.srt'', subtitleContent := Some ''00:00:01 hello''\<rparr>,
      settings = sample_settings, ui = sample_ui, route = ''/''\<rparr>"

definition moment_at :: "real \<Rightarrow> string \<Rightarrow> Moment" where
  "moment_at secs t = \<lparr>m_seconds = secs, m_title = t, m_content = ''text''\<rparr>"

definition failure_without_message :: AnalyzeResponse where
  "failure_without_message = \<lparr>success = False, data = [], resp_error = None\<rparr>"

definition prompt_backend :: "AnalyzeResponse promise \<Rightarrow> AnalyzeRequest \<Rightarrow> AnalyzeResponse backend_run" where
  "prompt_backend r req = \<lparr>duration_ms = 1000, settles = r\<rparr>"

definition slow_backend :: "AnalyzeRequest \<Rightarrow> AnalyzeResponse backend_run" where
  "slow_backend req =
     \<lparr>duration_ms = 300001,
      settles = Resolved \<lparr>success = True, data = [note_a, note_b], resp_error = None\<rparr>\<rparr>"

definition bare_page :: SetupPage where
  "bare_page = sample_page\<lparr>settings := sample_settings\<lparr>model := ''''\<rparr>\<rparr>"

section \<open>Decimal rendering\<close>

lemma show_nat_not_Nil: "show_nat n \<noteq> []"
  by (subst show_nat.simps) simp

lemma length_show_nat_small: "n < 10 \<Longrightarrow> length (show_nat n) = 1"
  by (subst show_nat.simps) simp

lemma length_show_nat_large: "10 \<le> n \<Longrightarrow> 2 \<le> length (show_nat n)"
proof -
  assume a: "10 \<le> n"
  have "length (show_nat (n div 10)) \<ge> 1"
    using show_nat_not_Nil [of "n div 10"] by (cases "show_nat (n div 10)") auto
  then show ?thesis using a by (subst show_nat.simps) simp
qed

lemma padStart_show_nat: "padStart 2 (CHR ''0'') (show_nat n) = two_digits n"
proof (cases "n < 10")
  case True
  then show ?thesis
    by (simp add: padStart_def two_digits_def length_show_nat_small)
next
  case False
  then have "2 \<le> length (show_nat n)" by (simp add: length_show_nat_large)
  then show ?thesis using False
    by (simp add: padStart_def two_digits_def)
qed

lemma number_toString_int: "number_toString (int n) = show_nat n"
  by (simp add: number_toString_def)

lemma digit_char_inj: "n < 10 \<Longrightarrow> m < 10 \<Longrightarrow> digit_char n = digit_char m \<Longrightarrow> n = m"
proof -
  have d: "distinct ''0123456789''" by simp
  assume "n < 10" "m < 10" "digit_char n = digit_char m"
  then show "n = m"
    unfolding digit_char_def using nth_eq_iff_index_eq [OF d, of n m] by simp
qed

lemma digit_char_digit: "n < 10 \<Longrightarrow> digit_char n \<in> set ''0123456789''"
  unfolding digit_char_def by (rule nth_mem) simp

lemma show_nat_digits: "set (show_nat n) \<subseteq> set ''0123456789''"
proof (induction n rule: show_nat.induct)
  case (1 n)
  show ?case
  proof (cases "n < 10")
    case True
    then show ?thesis
      using digit_char_digit [of n] by (subst show_nat.simps) simp
  next
    case False
    have "n mod 10 < 10" by simp
    then have "digit_char (n mod 10) \<in> set ''0123456789''" by (rule digit_char_digit)
    then show ?thesis
      using False 1 by (subst show_nat.simps) simp
  qed
qed

lemma show_nat_inj: "show_nat n = show_nat m \<Longrightarrow> n = m"
proof (induction n arbitrary: m rule: show_nat.induct)
  case (1 n)
  show ?case
  proof (cases "n < 10")
    case n: True
    show ?thesis
    proof (cases "m < 10")
      case True
      then show ?thesis
        using n 1(2) digit_char_inj [of n m]
        by (simp add: show_nat.simps [of n] show_nat.simps [of m])
    next
      case False
      then have "2 \<le> length (show_nat m)" by (simp add: length_show_nat_large)
      moreover have "length (show_nat n) = 1" using n by (rule length_show_nat_small)
      ultimately show ?thesis using 1(2) by simp
    qed
  next
    case n: False
    show ?thesis
    proof (cases "m < 10")
      case True
      from n have "2 \<le> length (show_nat n)" by (simp add: length_show_nat_large)
      moreover have "length (show_nat m) = 1" using True by (rule length_show_nat_small)
      ultimately show ?thesis using 1(2) by simp
    next
      case False
      have eq: "show_nat (n div 10) @ [digit_char (n mod 10)]
          = show_nat (m div 10) @ [digit_char (m mod 10)]"
        using 1(2) n False by (simp add: show_nat.simps [of n] show_nat.simps [of m])
      then have a: "show_nat (n div 10) = show_nat (m div 10)"
        and b: "digit_char (n mod 10) = digit_char (m mod 10)" by simp_all
      have "n div 10 = m div 10" using 1(1) [OF n a] .
      moreover have "n mod 10 = m mod 10" using b by (intro digit_char_inj) simp_all
      ultimately show ?thesis by (metis div_mult_mod_eq)
    qed
  qed
qed

lemmas eval_string =
  show_nat.simps digit_char_def number_toString_def padStart_def two_digits_def

section \<open>Starting the analysis\<close>

lemma or_default_not_Nil: "d \<noteq> [] \<Longrightarrow> or_default v d \<noteq> []"
  by (simp add: or_default_def split: option.splits)

lemma MSG_FAILED_not_Nil: "MSG_FAILED \<noteq> []"
  by (simp add: MSG_FAILED_def)

lemma start_ready_guards:
  "start_ready pg \<Longrightarrow>
     \<not> (\<not> truthy (videoPath (project pg)) \<or> \<not> truthy (subtitleContent (project pg)))
     \<and> truthy (Some (apiKey (settings pg)))"
  by (simp add: start_ready_def truthy_def)

lemma handleStart_ready:
  "start_ready pg \<Longrightarrow>
     fst (handleStart backend pg) =
       (case analyzeVideo backend (start_params pg) of
          Resolved result \<Rightarrow>
            if success result
            then pg\<lparr>project := (project pg)\<lparr>notes_list := data result, isProcessing := False\<rparr>,
                    ui := (ui pg)\<lparr>isProcessingLocal := False, errorMsg := []\<rparr>,
                    route := ''/editor''\<rparr>
            else pg\<lparr>project := (project pg)\<lparr>isProcessing := False\<rparr>,
                    ui := (ui pg)\<lparr>isProcessingLocal := False,
                      errorMsg := or_default (resp_error result) MSG_FAILED\<rparr>\<rparr>
        | Rejected err \<Rightarrow>
            pg\<lparr>project := (project pg)\<lparr>isProcessing := False\<rparr>,
               ui := (ui pg)\<lparr>isProcessingLocal := False,
                 errorMsg := or_default err MSG_FAILED\<rparr>\<rparr>)"
  using start_ready_guards [of pg]
  by (simp add: handleStart_def Let_def setErrorMsg_def setIsProcessingLocal_def in_store_def
      setProcessing_def setNotes_def navigate_def split: promise.splits)

lemma handleStart_sent:
  "snd (handleStart backend pg) = (if start_ready pg then [analyze_body (start_params pg)] else [])"
  by (auto simp: handleStart_def Let_def start_ready_def truthy_def split: option.splits)

text \<open>
  C1 (as amended). For every call that passes the guards of \<open>handleStart\<close>, the handler ends
  in one of three ways. The request resolved with \<open>success\<close> true: the notes are
  \<open>result.data\<close>, the error message is empty and the route is the editor. The request
  resolved with \<open>success\<close> false: the error message is \<open>result.error\<close>, or the fixed text
  when that is missing or empty. The request was rejected: the error message is the
  rejection's message, or the fixed text when that is missing or empty. In the last two
  cases the notes and the route are as before, and the message shown is never empty. An
  error is a message only: the response has no error code.
\<close>

theorem handleStart_outcomes:
  "start_ready pg \<Longrightarrow>
     (case analyzeVideo backend (start_params pg) of
        Resolved result \<Rightarrow>
          if success result
          then fst (handleStart backend pg) =
                 pg\<lparr>project := (project pg)\<lparr>notes_list := data result, isProcessing := False\<rparr>,
                    ui := (ui pg)\<lparr>isProcessingLocal := False, errorMsg := []\<rparr>,
                    route := ''/editor''\<rparr>
          else fst (handleStart backend pg) =
                 pg\<lparr>project := (project pg)\<lparr>isProcessing := False\<rparr>,
                    ui := (ui pg)\<lparr>isProcessingLocal := False,
                      errorMsg := or_default (resp_error result) MSG_FAILED\<rparr>\<rparr>
               \<and> or_default (resp_error result) MSG_FAILED \<noteq> []
      | Rejected err \<Rightarrow>
          fst (handleStart backend pg) =
            pg\<lparr>project := (project pg)\<lparr>isProcessing := False\<rparr>,
               ui := (ui pg)\<lparr>isProcessingLocal := False,
                 errorMsg := or_default err MSG_FAILED\<rparr>\<rparr>
          \<and> or_default err MSG_FAILED \<noteq> [])"
  using handleStart_ready [of pg backend] or_default_not_Nil [OF MSG_FAILED_not_Nil]
  by (simp split: promise.splits)

lemma sample_page_ready: "start_ready sample_page"
  by (simp add: start_ready_def sample_page_def sample_settings_def initialState_def truthy_def)

lemma analyzeVideo_prompt: "analyzeVideo (prompt_backend r) params = r"
  by (simp add: analyzeVideo_def apiClient_request_def prompt_backend_def API_TIMEOUT_MS_def)

theorem handleStart_outcomes_witness:
  "start_ready sample_page
   \<and> notes_list (project (fst (handleStart
        (prompt_backend (Resolved \<lparr>success = True, data = [note_a], resp_error = None\<rparr>))
        sample_page))) = [note_a]
   \<and> errorMsg (ui (fst (handleStart
        (prompt_backend (Resolved \<lparr>success = False, data = [], resp_error = Some ''no cues''\<rparr>))
        sample_page))) = ''no cues''
   \<and> errorMsg (ui (fst (handleStart (prompt_backend (Rejected (Some ''Network Error'')))
        sample_page))) = ''Network Error''"
proof -
  note a = handleStart_outcomes [OF sample_page_ready,
      of "prompt_backend (Resolved \<lparr>success = True, data = [note_a], resp_error = None\<rparr>)"]
  note b = handleStart_outcomes [OF sample_page_ready,
      of "prompt_backend (Resolved \<lparr>success = False, data = [], resp_error = Some ''no cues''\<rparr>)"]
  note c = handleStart_outcomes [OF sample_page_ready,
      of "prompt_backend (Rejected (Some ''Network Error''))"]
  have "notes_list (project (fst (handleStart
        (prompt_backend (Resolved \<lparr>success = True, data = [note_a], resp_error = None\<rparr>))
        sample_page))) = [note_a]"
    using a by (simp add: analyzeVideo_prompt)
  moreover have "errorMsg (ui (fst (handleStart
        (prompt_backend (Resolved \<lparr>success = False, data = [], resp_error = Some ''no cues''\<rparr>))
        sample_page))) = ''no cues''"
    using b by (simp add: analyzeVideo_prompt or_default_def)
  moreover have "errorMsg (ui (fst (handleStart (prompt_backend (Rejected (Some ''Network Error'')))
        sample_page))) = ''Network Error''"
    using c by (simp add: analyzeVideo_prompt or_default_def)
  ultimately show ?thesis using sample_page_ready by simp
qed

text \<open>
  C1 as the claim states it fails: a response that says failure and holds no error text
  is neither the note array nor an error object with a message; the page shows the fixed
  text instead.
\<close>

theorem analyze_shapes_counterexample:
  "analyzeVideo (prompt_backend (Resolved failure_without_message)) (start_params sample_page)
     = Resolved \<lparr>success = False, data = [], resp_error = None\<rparr>
   \<and> \<not> (delivers_notes (analyzeVideo (prompt_backend (Resolved failure_without_message))
          (start_params sample_page))
      \<or> delivers_error_message (analyzeVideo (prompt_backend (Resolved failure_without_message))
          (start_params sample_page)))
   \<and> errorMsg (ui (fst (handleStart (prompt_backend (Resolved failure_without_message))
        sample_page))) = MSG_FAILED"
  using handleStart_ready [OF sample_page_ready, of "prompt_backend (Resolved failure_without_message)"]
  by (simp add: analyzeVideo_prompt delivers_notes_def delivers_error_message_def
      failure_without_message_def truthy_def or_default_def)

section \<open>The order and the ids of the notes\<close>

lemma sep_cancel:
  assumes "xs @ c # r = ys @ c # r'" "c \<notin> set xs" "c \<notin> set ys"
  shows "xs = ys"
proof -
  have "takeWhile (\<lambda>x. x \<noteq> c) (xs @ c # r) = xs"
    using assms(2) by (subst takeWhile_append2) auto
  moreover have "takeWhile (\<lambda>x. x \<noteq> c) (ys @ c # r') = ys"
    using assms(3) by (subst takeWhile_append2) auto
  ultimately show ?thesis using assms(1) by simp
qed

lemma note_id_inj: "note_id i s = note_id j s' \<Longrightarrow> i = j"
proof -
  assume "note_id i s = note_id j s'"
  then have e: "show_nat i @ CHR ''_'' # number_toString \<lfloor>s\<rfloor>
      = show_nat j @ CHR ''_'' # number_toString \<lfloor>s'\<rfloor>"
    by (simp add: note_id_def)
  have "CHR ''_'' \<notin> set (show_nat i)" "CHR ''_'' \<notin> set (show_nat j)"
    using show_nat_digits [of i] show_nat_digits [of j] by auto
  with e have "show_nat i = show_nat j" by (rule sep_cancel)
  then show "i = j" by (rule show_nat_inj)
qed

lemma distinct_ids_enumerate:
  "distinct (map id_note (map (\<lambda>(i, m). make_note i m (frames i)) (enumerate k ms)))"
proof -
  have "inj_on (\<lambda>(i, m). note_id i (m_seconds m)) (set (enumerate k ms))"
  proof (rule inj_onI)
    fix x y
    assume x: "x \<in> set (enumerate k ms)" and y: "y \<in> set (enumerate k ms)"
      and e: "(case x of (i, m) \<Rightarrow> note_id i (m_seconds m))
            = (case y of (i, m) \<Rightarrow> note_id i (m_seconds m))"
    obtain i m where xi: "x = (i, m)" by (cases x)
    obtain j m' where yj: "y = (j, m')" by (cases y)
    have "i = j" using e xi yj note_id_inj by simp
    moreover have "m = ms ! (i - k)" "m' = ms ! (j - k)"
      using x y xi yj by (auto simp: in_set_enumerate_eq)
    ultimately show "x = y" using xi yj by simp
  qed
  moreover have "distinct (enumerate k ms)" by (simp add: distinct_enumerate)
  ultimately have d: "distinct (map (\<lambda>(i, m). note_id i (m_seconds m)) (enumerate k ms))"
    by (simp add: distinct_map)
  have e: "map id_note (map (\<lambda>(i, m). make_note i m (frames i)) (enumerate k ms))
      = map (\<lambda>(i, m). note_id i (m_seconds m)) (enumerate k ms)"
    by (simp add: make_note_def split_def)
  show ?thesis unfolding e by (rule d)
qed

lemma distinct_map_sort_key: "distinct (map f (sort_key k xs)) = distinct (map f xs)"
proof -
  have "mset (map f (sort_key k xs)) = mset (map f xs)" by simp
  then show ?thesis by (rule mset_eq_imp_distinct_iff)
qed

lemma assemble_invariant: "notes_invariant (assemble ms frames)"
proof -
  let ?raw = "map (\<lambda>(i, m). make_note i m (frames i)) (enumerate 0 ms)"
  have "distinct (map id_note (sort_key seconds ?raw))"
    unfolding distinct_map_sort_key by (rule distinct_ids_enumerate)
  then show ?thesis
    by (simp add: notes_invariant_def assemble_def)
qed

lemma deleteNote_invariant:
  "notes_invariant (notes_list st) \<Longrightarrow> notes_invariant (notes_list (deleteNote i st))"
  by (simp add: notes_invariant_def deleteNote_def sorted_filter distinct_map_filter)

lemma updateNote_invariant:
  assumes "notes_invariant (notes_list st)" "u_id updates = None" "u_seconds updates = None"
  shows "notes_invariant (notes_list (updateNote i updates st))"
proof -
  have "map seconds (notes_list (updateNote i updates st)) = map seconds (notes_list st)"
    using assms(3) by (simp add: updateNote_def merge_note_def spread_def)
  moreover have "map id_note (notes_list (updateNote i updates st)) = map id_note (notes_list st)"
    using assms(2) by (simp add: updateNote_def merge_note_def spread_def)
  ultimately show ?thesis using assms(1) by (simp add: notes_invariant_def)
qed

lemma handleTimeUpdate_store: "store (handleTimeUpdate t ed) = store ed"
  by (simp add: handleTimeUpdate_def Let_def split: option.splits)

lemma find_current_sorted:
  "sorted (map seconds ns) \<Longrightarrow>
     find_current t ns =
       (case filter (\<lambda>n. seconds n \<le> t) ns of [] \<Rightarrow> None | x # xs \<Rightarrow> Some (last (x # xs)))"
proof (induction t ns rule: find_current.induct)
  case (1 t)
  then show ?case by simp
next
  case (2 t n0)
  then show ?case by simp
next
  case (3 t n0 nextNote rest)
  have s: "sorted (map seconds (nextNote # rest))" and le: "seconds n0 \<le> seconds nextNote"
    and after: "\<forall>n \<in> set rest. seconds nextNote \<le> seconds n"
    using 3(2) by auto
  show ?case
  proof (cases "seconds n0 \<le> t \<and> seconds nextNote > t")
    case True
    then have "filter (\<lambda>n. seconds n \<le> t) rest = []"
      using after by (auto simp: filter_empty_conv)
    then show ?thesis using True by simp
  next
    case False
    note ih = 3(1) [OF False s]
    show ?thesis
    proof (cases "seconds n0 \<le> t")
      case True
      then have "seconds nextNote \<le> t" using False by simp
      then show ?thesis using True False ih by simp
    next
      case False
      then have "t < seconds nextNote" using le by simp
      moreover from this have "filter (\<lambda>n. seconds n \<le> t) rest = []"
        using after by (auto simp: filter_empty_conv)
      ultimately show ?thesis using False ih by simp
    qed
  qed
qed

text \<open>
  C2. The note list that the Note Assembler delivers is sorted ascending by \<open>seconds\<close> and
  its ids are pairwise distinct. \<open>setNotes\<close> stores the list it is given as it is, so the
  stored list has the invariant whenever the given one has, and so has the list that
  \<open>handleStart\<close> stores when the request resolves with the assembler's list. The consumers
  keep it:
  deleting a note, and the editor's updates of a title or of a content (any update that
  holds neither \<open>id\<close> nor \<open>seconds\<close>), lead from a list with the invariant to a list with
  the invariant; the editor's current-note lookup leaves the store as it is and, on a
  list sorted ascending, finds the last note at or before the current time.
\<close>

theorem notes_invariant_kept:
  "notes_invariant (assemble ms frames)
   \<and> notes_list (setNotes ns st) = ns
   \<and> (notes_invariant ns \<longrightarrow> notes_invariant (notes_list (setNotes ns st)))
   \<and> (start_ready pg
        \<and> analyzeVideo backend (start_params pg)
            = Resolved \<lparr>success = True, data = assemble ms frames, resp_error = e\<rparr> \<longrightarrow>
        notes_list (project (fst (handleStart backend pg))) = assemble ms frames
      \<and> notes_invariant (notes_list (project (fst (handleStart backend pg)))))
   \<and> (notes_invariant (notes_list st) \<longrightarrow>
        notes_invariant (notes_list (deleteNote i st))
      \<and> notes_invariant (notes_list (updateNote i (only_title v) st))
      \<and> notes_invariant (notes_list (updateNote i (only_content v) st))
      \<and> (u_id updates = None \<and> u_seconds updates = None \<longrightarrow>
           notes_invariant (notes_list (updateNote i updates st))))
   \<and> (notes_invariant (notes_list (store ed)) \<longrightarrow>
        notes_invariant (notes_list (store (onDelete shown ed)))
      \<and> notes_invariant (notes_list (store (onUpdate shown (only_title v) ed)))
      \<and> notes_invariant (notes_list (store (onUpdate shown (only_content v) ed)))
      \<and> notes_invariant (notes_list (store (handleTimeUpdate t ed)))
      \<and> find_current t (notes_list (store ed)) =
          (case filter (\<lambda>n. seconds n \<le> t) (notes_list (store ed)) of
             [] \<Rightarrow> None | x # xs \<Rightarrow> Some (last (x # xs))))
   \<and> store (handleTimeUpdate t ed) = store ed"
proof -
  have t: "u_id (only_title v) = None" "u_seconds (only_title v) = None"
    and c: "u_id (only_content v) = None" "u_seconds (only_content v) = None"
    by (simp_all add: only_title_def only_content_def no_updates_def)
  have a: "notes_invariant (assemble ms frames)"
    by (rule assemble_invariant)
  have b: "notes_list (setNotes ns st) = ns"
    by (simp add: setNotes_def)
  have g: "start_ready pg
        \<and> analyzeVideo backend (start_params pg)
            = Resolved \<lparr>success = True, data = assemble ms frames, resp_error = e\<rparr> \<longrightarrow>
        notes_list (project (fst (handleStart backend pg))) = assemble ms frames
      \<and> notes_invariant (notes_list (project (fst (handleStart backend pg))))"
  proof
    assume h: "start_ready pg
        \<and> analyzeVideo backend (start_params pg)
            = Resolved \<lparr>success = True, data = assemble ms frames, resp_error = e\<rparr>"
    then have "notes_list (project (fst (handleStart backend pg))) = assemble ms frames"
      using handleStart_ready [of pg backend] by simp
    then show "notes_list (project (fst (handleStart backend pg))) = assemble ms frames
      \<and> notes_invariant (notes_list (project (fst (handleStart backend pg))))"
      using a by simp
  qed
  have d: "notes_invariant (notes_list st) \<longrightarrow>
        notes_invariant (notes_list (deleteNote i st))
      \<and> notes_invariant (notes_list (updateNote i (only_title v) st))
      \<and> notes_invariant (notes_list (updateNote i (only_content v) st))
      \<and> (u_id updates = None \<and> u_seconds updates = None \<longrightarrow>
           notes_invariant (notes_list (updateNote i updates st)))"
    using t c by (simp add: deleteNote_invariant updateNote_invariant)
  have e: "notes_invariant (notes_list (store ed)) \<longrightarrow>
        notes_invariant (notes_list (store (onDelete shown ed)))
      \<and> notes_invariant (notes_list (store (onUpdate shown (only_title v) ed)))
      \<and> notes_invariant (notes_list (store (onUpdate shown (only_content v) ed)))
      \<and> notes_invariant (notes_list (store (handleTimeUpdate t ed)))
      \<and> find_current t (notes_list (store ed)) =
          (case filter (\<lambda>n. seconds n \<le> t) (notes_list (store ed)) of
             [] \<Rightarrow> None | x # xs \<Rightarrow> Some (last (x # xs)))"
    using t c
    by (simp add: onDelete_def onUpdate_def deleteNote_invariant updateNote_invariant
        handleTimeUpdate_store find_current_sorted notes_invariant_def [of "notes_list (store ed)"])
  from a b g d e show ?thesis
    by (simp add: handleTimeUpdate_store)
qed

theorem notes_invariant_kept_witness:
  "notes_invariant [note_a, note_b]
   \<and> notes_invariant (notes_list (deleteNote ''a'' (setNotes [note_a, note_b] initialState)))
   \<and> notes_invariant
       (notes_list (updateNote ''b'' (only_title ''T'') (setNotes [note_a, note_b] initialState)))
   \<and> u_id no_updates = None \<and> u_seconds no_updates = None
   \<and> notes_invariant
       (notes_list (updateNote ''b'' no_updates (setNotes [note_a, note_b] initialState)))
   \<and> notes_invariant (notes_list (store (onDelete note_a
        \<lparr>store = setNotes [note_a, note_b] initialState, isPlaying = False, currentTime = 0,
          activeNoteId = None\<rparr>)))
   \<and> find_current 70 [note_a, note_b] = Some note_b
   \<and> start_ready sample_page
   \<and> analyzeVideo
        (prompt_backend (Resolved \<lparr>success = True,
           data = assemble [moment_at 65 ''x'', moment_at 10 ''y''] (\<lambda>i. Failure CodecError),
           resp_error = None\<rparr>))
        (start_params sample_page)
       = Resolved \<lparr>success = True,
           data = assemble [moment_at 65 ''x'', moment_at 10 ''y''] (\<lambda>i. Failure CodecError),
           resp_error = None\<rparr>
   \<and> notes_invariant (notes_list (project (fst (handleStart
        (prompt_backend (Resolved \<lparr>success = True,
           data = assemble [moment_at 65 ''x'', moment_at 10 ''y''] (\<lambda>i. Failure CodecError),
           resp_error = None\<rparr>))
        sample_page))))
   \<and> map seconds (assemble [moment_at 65 ''x'', moment_at 10 ''y''] (\<lambda>i. Failure CodecError))
       = [10, 65]
   \<and> map id_note (assemble [moment_at 65 ''x'', moment_at 10 ''y''] (\<lambda>i. Failure CodecError))
       = [''note_1_10'', ''note_0_65'']"
proof -
  let ?st = "setNotes [note_a, note_b] initialState"
  let ?ed = "\<lparr>store = ?st, isPlaying = False, currentTime = 0, activeNoteId = None\<rparr>"
  let ?data = "assemble [moment_at 65 ''x'', moment_at 10 ''y''] (\<lambda>i. Failure CodecError)"
  let ?backend = "prompt_backend (Resolved \<lparr>success = True, data = ?data, resp_error = None\<rparr>)"
  have n: "notes_list ?st = [note_a, note_b]" "notes_list (store ?ed) = [note_a, note_b]"
    by (simp_all add: setNotes_def)
  have h: "notes_invariant [note_a, note_b]"
    by (simp add: notes_invariant_def note_a_def note_b_def)
  have u: "u_id no_updates = None \<and> u_seconds no_updates = None"
    by (simp add: no_updates_def)
  have r: "analyzeVideo ?backend (start_params sample_page)
      = Resolved \<lparr>success = True, data = ?data, resp_error = None\<rparr>"
    by (rule analyzeVideo_prompt)
  note k = notes_invariant_kept
    [where ms = "[moment_at 65 ''x'', moment_at 10 ''y'']" and frames = "\<lambda>i. Failure CodecError"
      and ns = "[note_a, note_b]" and st = ?st and i = "''a''" and v = "''T''"
      and updates = no_updates and ed = ?ed and shown = note_a and t = 70
      and pg = sample_page and backend = ?backend and e = None]
  note k2 = notes_invariant_kept
    [where ms = "[moment_at 65 ''x'', moment_at 10 ''y'']" and frames = "\<lambda>i. Failure CodecError"
      and ns = "[note_a, note_b]" and st = ?st and i = "''b''" and v = "''T''"
      and updates = no_updates and ed = ?ed and shown = note_a and t = 70
      and pg = sample_page and backend = ?backend and e = None]
  have f: "filter (\<lambda>n. seconds n \<le> 70) [note_a, note_b] = [note_a, note_b]"
    by (simp add: note_a_def note_b_def)
  have c: "find_current 70 [note_a, note_b] = Some note_b"
    using k h n f by simp
  have st: "notes_invariant (notes_list (project (fst (handleStart ?backend sample_page))))"
    using k sample_page_ready r by blast
  have del: "notes_invariant (notes_list (deleteNote ''a'' ?st))"
    and ed: "notes_invariant (notes_list (store (onDelete note_a ?ed)))"
    using k h n by simp_all
  have upd: "notes_invariant (notes_list (updateNote ''b'' (only_title ''T'') ?st))"
    "notes_invariant (notes_list (updateNote ''b'' no_updates ?st))"
    using k2 h n u by simp_all
  have s: "map seconds ?data = [10, 65]"
    by (simp add: assemble_def enumerate_eq_zip upt_rec make_note_def moment_at_def)
  have i: "map id_note ?data = [''note_1_10'', ''note_0_65'']"
    by (simp add: assemble_def enumerate_eq_zip upt_rec make_note_def moment_at_def note_id_def
        eval_string)
  from h del upd u ed c sample_page_ready r st s i show ?thesis
    by blast
qed

section \<open>The timeout of the request\<close>

lemma analyzeVideo_timeout:
  "API_TIMEOUT_MS < duration_ms (backend (analyze_body params)) \<Longrightarrow>
     analyzeVideo backend params = Rejected (Some TIMEOUT_MESSAGE)"
  by (simp add: analyzeVideo_def apiClient_request_def)

lemma TIMEOUT_MESSAGE_text: "TIMEOUT_MESSAGE = ''timeout of 300000ms exceeded''"
  by (simp add: TIMEOUT_MESSAGE_def API_TIMEOUT_MS_def eval_string)

text \<open>
  C3 (as amended). When the answer to the request takes longer than the client's timeout
  of 300000 ms, the request is rejected and the caller gets an error, not a partial
  result: \<open>handleStart\<close> shows the timeout message, leaves the stored notes and the route
  as they were, and clears the processing flags, whatever the backend had assembled.
\<close>

theorem timeout_is_an_error:
  "start_ready pg \<Longrightarrow> API_TIMEOUT_MS < duration_ms (backend (analyze_body (start_params pg))) \<Longrightarrow>
     fst (handleStart backend pg) =
       pg\<lparr>project := (project pg)\<lparr>isProcessing := False\<rparr>,
          ui := (ui pg)\<lparr>isProcessingLocal := False, errorMsg := TIMEOUT_MESSAGE\<rparr>\<rparr>
     \<and> notes_list (project (fst (handleStart backend pg))) = notes_list (project pg)
     \<and> route (fst (handleStart backend pg)) = route pg
     \<and> errorMsg (ui (fst (handleStart backend pg))) = ''timeout of 300000ms exceeded''"
proof -
  assume r: "start_ready pg"
    and t: "API_TIMEOUT_MS < duration_ms (backend (analyze_body (start_params pg)))"
  have m: "or_default (Some TIMEOUT_MESSAGE) MSG_FAILED = TIMEOUT_MESSAGE"
    by (simp add: or_default_def TIMEOUT_MESSAGE_text)
  have "fst (handleStart backend pg) =
       pg\<lparr>project := (project pg)\<lparr>isProcessing := False\<rparr>,
          ui := (ui pg)\<lparr>isProcessingLocal := False, errorMsg := TIMEOUT_MESSAGE\<rparr>\<rparr>"
    using handleStart_ready [OF r, of backend] analyzeVideo_timeout [of backend "start_params pg"] t m
    by simp
  then show ?thesis by (simp add: TIMEOUT_MESSAGE_text)
qed

lemma slow_backend_late:
  "API_TIMEOUT_MS < duration_ms (slow_backend (analyze_body (start_params sample_page)))"
  by (simp add: slow_backend_def API_TIMEOUT_MS_def)

theorem timeout_is_an_error_witness:
  "start_ready sample_page
   \<and> API_TIMEOUT_MS < duration_ms (slow_backend (analyze_body (start_params sample_page)))
   \<and> errorMsg (ui (fst (handleStart slow_backend sample_page))) = ''timeout of 300000ms exceeded''
   \<and> route (fst (handleStart slow_backend sample_page)) = ''/''"
proof -
  have r: "route sample_page = ''/''"
    by (simp add: sample_page_def)
  have "errorMsg (ui (fst (handleStart slow_backend sample_page))) = ''timeout of 300000ms exceeded''
      \<and> route (fst (handleStart slow_backend sample_page)) = route sample_page"
    using timeout_is_an_error [of sample_page slow_backend] sample_page_ready slow_backend_late
    by blast
  then show ?thesis using r sample_page_ready slow_backend_late by simp
qed

text \<open>
  C3 as the claim states it fails: a run that had two notes to deliver and took longer
  than the timeout leaves the caller with no notes and an error message.
\<close>

theorem timeout_partial_result_counterexample:
  "settles (slow_backend (analyze_body (start_params sample_page)))
     = Resolved \<lparr>success = True, data = [note_a, note_b], resp_error = None\<rparr>
   \<and> analyzeVideo slow_backend (start_params sample_page)
       = Rejected (Some ''timeout of 300000ms exceeded'')
   \<and> notes_list (project (fst (handleStart slow_backend sample_page))) = []
   \<and> errorMsg (ui (fst (handleStart slow_backend sample_page))) = ''timeout of 300000ms exceeded''"
  using handleStart_ready [OF sample_page_ready, of slow_backend]
    analyzeVideo_timeout [of slow_backend "start_params sample_page"] slow_backend_late
  by (simp add: TIMEOUT_MESSAGE_text or_default_def slow_backend_def sample_page_def
      initialState_def)

section \<open>Timestamps\<close>

lemma js_rem_nonneg:
  "0 \<le> x \<Longrightarrow> js_rem x (real_of_int b) = x - real_of_int (b * (\<lfloor>x\<rfloor> div b))"
  if "0 < b" for b :: int
proof -
  assume x: "0 \<le> x"
  have "0 \<le> x / real_of_int b" using x that by simp
  then have "js_trunc (x / real_of_int b) = \<lfloor>x / real_of_int b\<rfloor>"
    by (simp add: js_trunc_def)
  also have "\<dots> = \<lfloor>x\<rfloor> div b"
    using that by (simp add: floor_divide_real_eq_div)
  finally show ?thesis by (simp add: js_rem_def)
qed

lemma floor_js_rem:
  "0 \<le> x \<Longrightarrow> \<lfloor>js_rem x (real_of_int b)\<rfloor> = \<lfloor>x\<rfloor> mod b" if "0 < b" for b :: int
proof -
  assume x: "0 \<le> x"
  have "\<lfloor>js_rem x (real_of_int b)\<rfloor> = \<lfloor>x\<rfloor> - b * (\<lfloor>x\<rfloor> div b)"
    unfolding js_rem_nonneg [OF that x] by (rule floor_diff_of_int)
  then show ?thesis by (simp add: minus_mult_div_eq_mod)
qed

lemma formatTime_parts:
  assumes "0 \<le> secs"
  shows "\<lfloor>secs / 3600\<rfloor> = int (nat \<lfloor>secs\<rfloor> div 3600)"
    and "\<lfloor>js_rem secs 3600 / 60\<rfloor> = int ((nat \<lfloor>secs\<rfloor> mod 3600) div 60)"
    and "\<lfloor>js_rem secs 60\<rfloor> = int (nat \<lfloor>secs\<rfloor> mod 60)"
proof -
  have fl: "\<lfloor>secs\<rfloor> = int (nat \<lfloor>secs\<rfloor>)" using assms by simp
  have "\<lfloor>secs / 3600\<rfloor> = \<lfloor>secs / real_of_int 3600\<rfloor>" by simp
  also have "\<dots> = \<lfloor>secs\<rfloor> div 3600" by (rule floor_divide_real_eq_div) simp
  also have "\<dots> = int (nat \<lfloor>secs\<rfloor> div 3600)" by (subst fl) (simp add: zdiv_int)
  finally show "\<lfloor>secs / 3600\<rfloor> = int (nat \<lfloor>secs\<rfloor> div 3600)" .
  have r: "js_rem secs 3600 = js_rem secs (real_of_int 3600)" by simp
  have "\<lfloor>js_rem secs 3600 / 60\<rfloor> = \<lfloor>js_rem secs 3600 / real_of_int 60\<rfloor>" by simp
  also have "\<dots> = \<lfloor>js_rem secs 3600\<rfloor> div 60" by (rule floor_divide_real_eq_div) simp
  also have "\<dots> = (\<lfloor>secs\<rfloor> mod 3600) div 60"
    unfolding r using floor_js_rem [of 3600 secs] assms by simp
  also have "\<dots> = int ((nat \<lfloor>secs\<rfloor> mod 3600) div 60)"
    by (subst fl) (simp add: zdiv_int zmod_int)
  finally show "\<lfloor>js_rem secs 3600 / 60\<rfloor> = int ((nat \<lfloor>secs\<rfloor> mod 3600) div 60)" .
  have "\<lfloor>js_rem secs 60\<rfloor> = \<lfloor>js_rem secs (real_of_int 60)\<rfloor>" by simp
  also have "\<dots> = \<lfloor>secs\<rfloor> mod 60" using floor_js_rem [of 60 secs] assms by simp
  also have "\<dots> = int (nat \<lfloor>secs\<rfloor> mod 60)" by (subst fl) (simp add: zmod_int)
  finally show "\<lfloor>js_rem secs 60\<rfloor> = int (nat \<lfloor>secs\<rfloor> mod 60)" .
qed

lemma formatTime_eq_format_timestamp:
  assumes "0 \<le> secs"
  shows "formatTime secs = format_timestamp secs"
  unfolding formatTime_def format_timestamp_def Let_def formatTime_parts [OF assms]
  by (simp only: number_toString_int padStart_show_nat of_nat_0_less_iff) auto

lemma assemble_set:
  "set (assemble ms frames) = (\<lambda>(i, m). make_note i m (frames i)) ` set (enumerate 0 ms)"
  by (simp add: assemble_def)

lemma assemble_timestamp:
  "n \<in> set (assemble ms frames) \<Longrightarrow> timestamp n = format_timestamp (seconds n)"
  unfolding assemble_set by (auto simp: make_note_def)

lemma format_timestamp_examples:
  "format_timestamp 0 = ''0:00''"
  "format_timestamp 65 = ''1:05''"
  "format_timestamp 3661 = ''1:01:01''"
  by (simp_all add: format_timestamp_def eval_string)

text \<open>
  C4. The timestamp of every note that the Note Assembler produces is the formatting of
  its seconds: floor division of the whole seconds into hours, minutes and seconds, zero
  padded, without the hours part when it is zero; 0 seconds gives "0:00", 65 seconds
  "1:05" and 3661 seconds "1:01:01". The renderer's own \<open>formatTime\<close>, which computes the
  parts with \<open>Math.floor\<close> and \<open>%\<close>, gives the same string for every non-negative number
  of seconds.
\<close>

theorem timestamp_formatting:
  "(\<forall>n \<in> set (assemble ms frames). timestamp n = format_timestamp (seconds n))
   \<and> format_timestamp 0 = ''0:00''
   \<and> format_timestamp 65 = ''1:05''
   \<and> format_timestamp 3661 = ''1:01:01''
   \<and> (0 \<le> secs \<longrightarrow> formatTime secs = format_timestamp secs)
   \<and> formatTime 0 = ''0:00''
   \<and> formatTime 65 = ''1:05''
   \<and> formatTime 3661 = ''1:01:01''"
proof -
  have assembled: "\<forall>n \<in> set (assemble ms frames). timestamp n = format_timestamp (seconds n)"
    by (simp add: assemble_timestamp)
  have same: "0 \<le> secs \<longrightarrow> formatTime secs = format_timestamp secs"
    by (simp add: formatTime_eq_format_timestamp)
  have "formatTime 0 = format_timestamp 0" "formatTime 65 = format_timestamp 65"
    "formatTime 3661 = format_timestamp 3661"
    by (simp_all add: formatTime_eq_format_timestamp)
  then have renderer: "formatTime 0 = ''0:00''" "formatTime 65 = ''1:05''"
    "formatTime 3661 = ''1:01:01''"
    by (simp_all add: format_timestamp_examples)
  from assembled same renderer format_timestamp_examples show ?thesis
    by blast
qed

theorem timestamp_formatting_witness:
  "(0::real) \<le> 7325.5
   \<and> formatTime 7325.5 = ''2:02:05''
   \<and> map timestamp (assemble [moment_at 3661 ''b'', moment_at 65 ''a''] (\<lambda>i. Failure CodecError))
       = [''1:05'', ''1:01:01'']"
proof -
  note t = timestamp_formatting
    [of "[moment_at 3661 ''b'', moment_at 65 ''a'']" "\<lambda>i. Failure CodecError" "7325.5"]
  have a: "formatTime 7325.5 = format_timestamp 7325.5"
    using t by simp
  have b: "format_timestamp 7325.5 = ''2:02:05''"
    by (simp add: format_timestamp_def eval_string)
  have c: "map seconds (assemble [moment_at 3661 ''b'', moment_at 65 ''a''] (\<lambda>i. Failure CodecError))
      = [65, 3661]"
    by (simp add: assemble_def enumerate_eq_zip upt_rec make_note_def moment_at_def)
  have "map timestamp (assemble [moment_at 3661 ''b'', moment_at 65 ''a''] (\<lambda>i. Failure CodecError))
      = map (\<lambda>n. format_timestamp (seconds n))
          (assemble [moment_at 3661 ''b'', moment_at 65 ''a''] (\<lambda>i. Failure CodecError))"
    using t by (intro map_cong) simp_all
  also have "\<dots> = map format_timestamp
      (map seconds (assemble [moment_at 3661 ''b'', moment_at 65 ''a''] (\<lambda>i. Failure CodecError)))"
    by simp
  also have "\<dots> = [''1:05'', ''1:01:01'']"
    unfolding c by (simp add: format_timestamp_examples)
  finally show ?thesis using a b by simp
qed

section \<open>Merging the moments of the chunks\<close>

lemma drop_duplicates_set:
  "x \<in> set (drop_duplicates th earlier ms) \<Longrightarrow>
     x \<in> set ms \<and> (\<forall>e \<in> set earlier. \<not> within_threshold th e x)"
proof (induction ms arbitrary: earlier)
  case Nil
  then show ?case by simp
next
  case (Cons m ms)
  show ?case
  proof (cases "list_ex (\<lambda>e. within_threshold th e m) earlier")
    case True
    then have "x \<in> set (drop_duplicates th (earlier @ [m]) ms)"
      using Cons.prems by simp
    from Cons.IH [OF this] show ?thesis by simp
  next
    case False
    then have "x = m \<or> x \<in> set (drop_duplicates th (earlier @ [m]) ms)"
      using Cons.prems by simp
    then show ?thesis
    proof
      assume "x = m"
      then show ?thesis using False by (simp add: list_ex_iff)
    next
      assume "x \<in> set (drop_duplicates th (earlier @ [m]) ms)"
      from Cons.IH [OF this] show ?thesis by simp
    qed
  qed
qed

lemma drop_duplicates_not_within:
  "sorted_wrt (\<lambda>a b. \<not> within_threshold th a b) (drop_duplicates th earlier ms)"
proof (induction ms arbitrary: earlier)
  case Nil
  then show ?case by simp
next
  case (Cons m ms)
  have "\<forall>x \<in> set (drop_duplicates th (earlier @ [m]) ms). \<not> within_threshold th m x"
    using drop_duplicates_set [of _ th "earlier @ [m]" ms] by auto
  then show ?case using Cons.IH [of "earlier @ [m]"] by simp
qed

lemma drop_duplicates_sorted:
  "sorted (map m_seconds ms) \<Longrightarrow> sorted (map m_seconds (drop_duplicates th earlier ms))"
proof (induction ms arbitrary: earlier)
  case Nil
  then show ?case by simp
next
  case (Cons m ms)
  have s: "sorted (map m_seconds ms)" and le: "\<forall>x \<in> set ms. m_seconds m \<le> m_seconds x"
    using Cons.prems by auto
  have "\<forall>x \<in> set (drop_duplicates th (earlier @ [m]) ms). m_seconds m \<le> m_seconds x"
    using le drop_duplicates_set [of _ th "earlier @ [m]" ms] by auto
  then show ?case using Cons.IH [OF s, of "earlier @ [m]"] by simp
qed

lemma apart_of_sorted:
  "sorted (map m_seconds r) \<Longrightarrow> sorted_wrt (\<lambda>a b. \<not> within_threshold th a b) r \<Longrightarrow>
     sorted_wrt (\<lambda>a b. th \<le> m_seconds b - m_seconds a) r"
  by (induction r) (auto simp: within_threshold_def)

lemma drop_duplicates_split:
  "drop_duplicates th earlier (xs @ m # ys) =
     drop_duplicates th earlier xs
     @ (if \<exists>e \<in> set (earlier @ xs). within_threshold th e m then [] else [m])
     @ drop_duplicates th (earlier @ xs @ [m]) ys"
proof (induction xs arbitrary: earlier)
  case Nil
  then show ?case by (simp add: list_ex_iff)
next
  case (Cons x xs)
  show ?case using Cons.IH [of "earlier @ [x]"] by simp
qed

lemma merge_moments_example:
  "merge_moments 5 [[moment_at 10 ''first''], [moment_at 10.8 ''second'']]
     = [moment_at 10 ''first'']"
  by (simp add: merge_moments_def moment_at_def within_threshold_def)

lemma drop_duplicates_nths:
  "drop_duplicates th earlier ms =
     nths ms {j. (\<forall>e \<in> set earlier. \<not> within_threshold th e (ms ! j))
               \<and> (\<forall>i < j. \<not> within_threshold th (ms ! i) (ms ! j))}"
proof (induction ms arbitrary: earlier)
  case Nil
  then show ?case by simp
next
  case (Cons m ms)
  have shift: "{j. Suc j \<in> {j. (\<forall>e \<in> set earlier. \<not> within_threshold th e ((m # ms) ! j))
                 \<and> (\<forall>i < j. \<not> within_threshold th ((m # ms) ! i) ((m # ms) ! j))}}
      = {j. (\<forall>e \<in> set (earlier @ [m]). \<not> within_threshold th e (ms ! j))
              \<and> (\<forall>i < j. \<not> within_threshold th (ms ! i) (ms ! j))}"
    by (auto simp: less_Suc_eq_0_disj)
  have first: "0 \<in> {j. (\<forall>e \<in> set earlier. \<not> within_threshold th e ((m # ms) ! j))
                 \<and> (\<forall>i < j. \<not> within_threshold th ((m # ms) ! i) ((m # ms) ! j))}
      \<longleftrightarrow> \<not> list_ex (\<lambda>e. within_threshold th e m) earlier"
    by (simp add: list_ex_iff)
  show ?case
    unfolding nths_Cons shift first using Cons.IH [of "earlier @ [m]"] by simp
qed

lemma merge_moments_nths:
  "merge_moments th chunks =
     nths (sort_key m_seconds (concat chunks))
       {j. \<forall>i < j. \<not> within_threshold th (sort_key m_seconds (concat chunks) ! i)
                          (sort_key m_seconds (concat chunks) ! j)}"
  by (simp add: merge_moments_def drop_duplicates_nths)

lemma chain_has_no_policy:
  "\<not> (\<exists>kept :: real \<Rightarrow> bool.
        \<forall>a \<in> {0, 4, 8}. \<forall>b \<in> {0, 4, 8}. a < b \<and> b - a < 5 \<longrightarrow> kept a \<and> \<not> kept b)"
proof
  assume "\<exists>kept :: real \<Rightarrow> bool.
        \<forall>a \<in> {0, 4, 8}. \<forall>b \<in> {0, 4, 8}. a < b \<and> b - a < 5 \<longrightarrow> kept a \<and> \<not> kept b"
  then obtain kept :: "real \<Rightarrow> bool"
    where k: "\<forall>a \<in> {0, 4, 8}. \<forall>b \<in> {0, 4, 8}. a < b \<and> b - a < 5 \<longrightarrow> kept a \<and> \<not> kept b"
    by blast
  from k have "\<not> kept 4" by force
  moreover from k have "kept 4" by force
  ultimately show False by simp
qed

text \<open>
  C5 (as amended). In the merged list of the Key-Moment Extractor, which is sorted
  ascending by seconds, no two retained moments are closer than the threshold. The
  retained moments are the sorted candidates at exactly those positions that have no
  candidate before them closer than the threshold. So of two candidates closer than the
  threshold the later one is always dropped; the earlier one is kept when no candidate
  before it is closer to it than the threshold (it is itself dropped otherwise), and it is
  kept when the two are the only candidates. With a threshold of 5 seconds, the moments
  at 10.0 and 10.8 collapse to the one at 10.0.
\<close>

theorem merge_moments_separated:
  "sorted (map m_seconds (merge_moments th chunks))
   \<and> sorted_wrt (\<lambda>a b. th \<le> m_seconds b - m_seconds a) (merge_moments th chunks)
   \<and> merge_moments th chunks =
       nths (sort_key m_seconds (concat chunks))
         {j. \<forall>i < j. \<not> within_threshold th (sort_key m_seconds (concat chunks) ! i)
                            (sort_key m_seconds (concat chunks) ! j)}
   \<and> (distinct (concat chunks) \<and> i < j \<and> j < length (concat chunks)
        \<and> within_threshold th (sort_key m_seconds (concat chunks) ! i)
             (sort_key m_seconds (concat chunks) ! j) \<longrightarrow>
        sort_key m_seconds (concat chunks) ! j \<notin> set (merge_moments th chunks))
   \<and> (i < length (concat chunks)
        \<and> (\<forall>k < i. \<not> within_threshold th (sort_key m_seconds (concat chunks) ! k)
                        (sort_key m_seconds (concat chunks) ! i)) \<longrightarrow>
        sort_key m_seconds (concat chunks) ! i \<in> set (merge_moments th chunks))
   \<and> (sort_key m_seconds (concat chunks) = [a, b] \<and> within_threshold th a b \<longrightarrow>
        merge_moments th chunks = [a])
   \<and> merge_moments 5 [[moment_at 10 ''first''], [moment_at 10.8 ''second'']]
       = [moment_at 10 ''first'']"
proof -
  let ?s = "sort_key m_seconds (concat chunks)"
  let ?K = "{j. \<forall>i < j. \<not> within_threshold th (?s ! i) (?s ! j)}"
  have len: "length ?s = length (concat chunks)"
    by simp
  have s: "sorted (map m_seconds (merge_moments th chunks))"
    unfolding merge_moments_def by (rule drop_duplicates_sorted) simp
  have a: "sorted_wrt (\<lambda>a b. th \<le> m_seconds b - m_seconds a) (merge_moments th chunks)"
    using s unfolding merge_moments_def
    by (rule apart_of_sorted) (rule drop_duplicates_not_within)
  have n: "merge_moments th chunks = nths ?s ?K"
    by (rule merge_moments_nths)
  have members: "set (merge_moments th chunks) = {?s ! k | k. k < length ?s \<and> k \<in> ?K}"
    unfolding n by (rule set_nths)
  have later: "distinct (concat chunks) \<and> i < j \<and> j < length (concat chunks)
        \<and> within_threshold th (?s ! i) (?s ! j) \<longrightarrow>
        ?s ! j \<notin> set (merge_moments th chunks)"
  proof
    assume h: "distinct (concat chunks) \<and> i < j \<and> j < length (concat chunks)
        \<and> within_threshold th (?s ! i) (?s ! j)"
    then have d: "distinct ?s" by simp
    show "?s ! j \<notin> set (merge_moments th chunks)"
    proof
      assume "?s ! j \<in> set (merge_moments th chunks)"
      then obtain k where k: "?s ! j = ?s ! k" "k < length ?s" "k \<in> ?K"
        unfolding members by blast
      then have "j = k"
        using d h len by (simp add: nth_eq_iff_index_eq)
      then show False using k(3) h by blast
    qed
  qed
  have earlier: "i < length (concat chunks)
        \<and> (\<forall>k < i. \<not> within_threshold th (?s ! k) (?s ! i)) \<longrightarrow>
        ?s ! i \<in> set (merge_moments th chunks)"
    unfolding members using len by auto
  have two: "?s = [a, b] \<and> within_threshold th a b \<longrightarrow> merge_moments th chunks = [a]"
    by (simp add: merge_moments_def)
  from s a n later earlier two merge_moments_example show ?thesis
    by blast
qed

theorem merge_moments_separated_witness:
  "distinct (concat [[moment_at 0 ''a'', moment_at 12 ''c''], [moment_at 4 ''b'']])
   \<and> sort_key m_seconds (concat [[moment_at 0 ''a'', moment_at 12 ''c''], [moment_at 4 ''b'']])
       = [moment_at 0 ''a'', moment_at 4 ''b'', moment_at 12 ''c'']
   \<and> within_threshold 5 (moment_at 0 ''a'') (moment_at 4 ''b'')
   \<and> moment_at 4 ''b''
       \<notin> set (merge_moments 5 [[moment_at 0 ''a'', moment_at 12 ''c''], [moment_at 4 ''b'']])
   \<and> moment_at 0 ''a''
       \<in> set (merge_moments 5 [[moment_at 0 ''a'', moment_at 12 ''c''], [moment_at 4 ''b'']])
   \<and> merge_moments 5 [[moment_at 0 ''a'', moment_at 12 ''c''], [moment_at 4 ''b'']]
       = [moment_at 0 ''a'', moment_at 12 ''c'']
   \<and> sorted_wrt (\<lambda>a b. 5 \<le> m_seconds b - m_seconds a)
       (merge_moments 5 [[moment_at 0 ''a'', moment_at 12 ''c''], [moment_at 4 ''b'']])
   \<and> sort_key m_seconds (concat [[moment_at 4 ''x''], [moment_at 2 ''y'']])
       = [moment_at 2 ''y'', moment_at 4 ''x'']
   \<and> within_threshold 5 (moment_at 2 ''y'') (moment_at 4 ''x'')
   \<and> merge_moments 5 [[moment_at 4 ''x''], [moment_at 2 ''y'']] = [moment_at 2 ''y'']"
proof -
  let ?chunks = "[[moment_at 0 ''a'', moment_at 12 ''c''], [moment_at 4 ''b'']]"
  let ?pair = "[[moment_at 4 ''x''], [moment_at 2 ''y'']]"
  have d: "distinct (concat ?chunks)"
    by (simp add: moment_at_def)
  have h: "sort_key m_seconds (concat ?chunks)
      = [moment_at 0 ''a'', moment_at 4 ''b'', moment_at 12 ''c'']"
    by (simp add: moment_at_def)
  have w: "within_threshold 5 (moment_at 0 ''a'') (moment_at 4 ''b'')"
    by (simp add: within_threshold_def moment_at_def)
  have hp: "sort_key m_seconds (concat ?pair) = [moment_at 2 ''y'', moment_at 4 ''x'']"
    by (simp add: moment_at_def)
  have wp: "within_threshold 5 (moment_at 2 ''y'') (moment_at 4 ''x'')"
    by (simp add: within_threshold_def moment_at_def)
  note t = merge_moments_separated
    [where th = 5 and chunks = ?chunks and i = 0 and j = 1
      and a = "moment_at 0 ''a''" and b = "moment_at 4 ''b''"]
  note p = merge_moments_separated
    [where th = 5 and chunks = ?pair and i = 0 and j = 1
      and a = "moment_at 2 ''y''" and b = "moment_at 4 ''x''"]
  have at: "sort_key m_seconds (concat ?chunks) ! 0 = moment_at 0 ''a''"
    "sort_key m_seconds (concat ?chunks) ! 1 = moment_at 4 ''b''"
    unfolding h by simp_all
  have later: "distinct (concat ?chunks) \<and> (0::nat) < 1 \<and> 1 < length (concat ?chunks)
        \<and> within_threshold 5 (sort_key m_seconds (concat ?chunks) ! 0)
             (sort_key m_seconds (concat ?chunks) ! 1) \<longrightarrow>
        sort_key m_seconds (concat ?chunks) ! 1 \<notin> set (merge_moments 5 ?chunks)"
    using t [THEN conjunct2, THEN conjunct2, THEN conjunct2, THEN conjunct1] .
  have "distinct (concat ?chunks) \<and> (0::nat) < 1 \<and> 1 < length (concat ?chunks)
        \<and> within_threshold 5 (sort_key m_seconds (concat ?chunks) ! 0)
             (sort_key m_seconds (concat ?chunks) ! 1)"
    unfolding at using d w by simp
  with later have "sort_key m_seconds (concat ?chunks) ! 1 \<notin> set (merge_moments 5 ?chunks)"
    by (rule mp)
  then have dropped: "moment_at 4 ''b'' \<notin> set (merge_moments 5 ?chunks)"
    unfolding at .
  have first: "(0::nat) < length (concat ?chunks)
        \<and> (\<forall>k < 0. \<not> within_threshold 5 (sort_key m_seconds (concat ?chunks) ! k)
                        (sort_key m_seconds (concat ?chunks) ! 0)) \<longrightarrow>
        sort_key m_seconds (concat ?chunks) ! 0 \<in> set (merge_moments 5 ?chunks)"
    using t [THEN conjunct2, THEN conjunct2, THEN conjunct2, THEN conjunct2, THEN conjunct1] .
  have "(0::nat) < length (concat ?chunks)
        \<and> (\<forall>k < 0. \<not> within_threshold 5 (sort_key m_seconds (concat ?chunks) ! k)
                        (sort_key m_seconds (concat ?chunks) ! 0))"
    by simp
  with first have "sort_key m_seconds (concat ?chunks) ! 0 \<in> set (merge_moments 5 ?chunks)"
    by (rule mp)
  then have kept: "moment_at 0 ''a'' \<in> set (merge_moments 5 ?chunks)"
    unfolding at .
  have apart: "sorted_wrt (\<lambda>a b. 5 \<le> m_seconds b - m_seconds a) (merge_moments 5 ?chunks)"
    using t by blast
  have r: "merge_moments 5 ?chunks = [moment_at 0 ''a'', moment_at 12 ''c'']"
    by (simp add: merge_moments_def moment_at_def within_threshold_def)
  have rp: "merge_moments 5 ?pair = [moment_at 2 ''y'']"
    using p hp wp by blast
  from d h w dropped kept r apart hp wp rp show ?thesis
    by blast
qed

text \<open>
  C5 as the claim states it fails on a chain of candidates: of the moments at 4 and at 8,
  which are closer than the threshold of 5, the earlier one is not kept, because it is
  itself closer than the threshold to the moment at 0. No rule could keep it: the pair at
  0 and 4 asks for the moment at 4 to be dropped.
\<close>

theorem earlier_kept_counterexample:
  "within_threshold 5 (moment_at 4 ''b'') (moment_at 8 ''c'')
   \<and> merge_moments 5 [[moment_at 0 ''a'', moment_at 4 ''b'', moment_at 8 ''c'']]
       = [moment_at 0 ''a'']
   \<and> moment_at 4 ''b''
       \<notin> set (merge_moments 5 [[moment_at 0 ''a'', moment_at 4 ''b'', moment_at 8 ''c'']])"
  by (simp add: merge_moments_def moment_at_def within_threshold_def)

section \<open>The request body\<close>

lemma style_string_enum: "style_string s \<in> {''professional'', ''blog'', ''tutorial''}"
  by (cases s) simp_all

text \<open>
  C6 (as amended). \<open>handleStart\<close> posts nothing when a guard fails and one body
  otherwise. The body has the six fields: \<open>video_path\<close> and \<open>subtitle_text\<close> are the video
  path and the subtitle text of the project, \<open>api_key\<close> is the API key of the settings,
  \<open>style\<close> is the output style of the settings and is one of professional, blog and
  tutorial, \<open>base_url\<close> is the base URL of the settings when that is not empty and is
  undefined otherwise, and \<open>model\<close> is the model of the settings when that is not empty and
  the default "gpt-4o-mini" otherwise. The body is the same whatever the backend does.
\<close>

theorem request_body_fields:
  "(\<not> start_ready pg \<longrightarrow> snd (handleStart backend pg) = [])
   \<and> (videoPath (project pg) = Some vp \<and> vp \<noteq> []
        \<and> subtitleContent (project pg) = Some text \<and> text \<noteq> []
        \<and> apiKey (settings pg) \<noteq> [] \<longrightarrow>
      snd (handleStart backend pg) =
        [\<lparr>video_path = vp,
          subtitle_text = text,
          api_key = apiKey (settings pg),
          style = style_string (outputStyle (settings pg)),
          base_url = (case baseUrl (settings pg) of None \<Rightarrow> None
                      | Some u \<Rightarrow> if u = [] then None else Some u),
          model_req = (if model (settings pg) = [] then ''gpt-4o-mini''
                       else model (settings pg))\<rparr>])
   \<and> (\<forall>req \<in> set (snd (handleStart backend pg)).
        style req \<in> {''professional'', ''blog'', ''tutorial''})
   \<and> snd (handleStart backend pg) = snd (handleStart backend' pg)"
proof -
  have a: "\<not> start_ready pg \<longrightarrow> snd (handleStart backend pg) = []"
    by (simp add: handleStart_sent)
  have b: "videoPath (project pg) = Some vp \<and> vp \<noteq> []
        \<and> subtitleContent (project pg) = Some text \<and> text \<noteq> []
        \<and> apiKey (settings pg) \<noteq> [] \<longrightarrow>
      snd (handleStart backend pg) =
        [\<lparr>video_path = vp,
          subtitle_text = text,
          api_key = apiKey (settings pg),
          style = style_string (outputStyle (settings pg)),
          base_url = (case baseUrl (settings pg) of None \<Rightarrow> None
                      | Some u \<Rightarrow> if u = [] then None else Some u),
          model_req = (if model (settings pg) = [] then ''gpt-4o-mini''
                       else model (settings pg))\<rparr>]"
    by (auto simp: handleStart_sent start_ready_def truthy_def analyze_body_def start_params_def
        or_default_def or_undefined_def DEFAULT_MODEL_def split: option.splits)
  have c: "\<forall>req \<in> set (snd (handleStart backend pg)).
        style req \<in> {''professional'', ''blog'', ''tutorial''}"
    using style_string_enum [of "outputStyle (settings pg)"]
    by (simp add: handleStart_sent analyze_body_def start_params_def)
  have d: "snd (handleStart backend pg) = snd (handleStart backend' pg)"
    by (simp add: handleStart_sent)
  from a b c d show ?thesis by blast
qed

theorem request_body_fields_witness:
  "videoPath (project sample_page) = Some ''/v/talk.mp4'' \<and> ''/v/talk.mp4'' \<noteq> []
   \<and> subtitleContent (project sample_page) = Some ''00:00:01 hello'' \<and> ''00:00:01 hello'' \<noteq> []
   \<and> apiKey (settings sample_page) \<noteq> []
   \<and> snd (handleStart slow_backend sample_page) =
       [\<lparr>video_path = ''/v/talk.mp4'', subtitle_text = ''00:00:01 hello'',
         api_key = ''sk-test'', style = ''blog'', base_url = None, model_req = ''gpt-4o''\<rparr>]
   \<and> \<not> start_ready (sample_page\<lparr>settings := sample_settings\<lparr>apiKey := []\<rparr>\<rparr>)
   \<and> snd (handleStart slow_backend (sample_page\<lparr>settings := sample_settings\<lparr>apiKey := []\<rparr>\<rparr>)) = []"
proof -
  have h: "videoPath (project sample_page) = Some ''/v/talk.mp4'' \<and> ''/v/talk.mp4'' \<noteq> []
      \<and> subtitleContent (project sample_page) = Some ''00:00:01 hello'' \<and> ''00:00:01 hello'' \<noteq> []
      \<and> apiKey (settings sample_page) \<noteq> []"
    by (simp add: sample_page_def sample_settings_def)
  have s: "settings sample_page = sample_settings"
    by (simp add: sample_page_def)
  have n: "\<not> start_ready (sample_page\<lparr>settings := sample_settings\<lparr>apiKey := []\<rparr>\<rparr>)"
    by (simp add: start_ready_def)
  note t = request_body_fields
    [of sample_page slow_backend "''/v/talk.mp4''" "''00:00:01 hello''" slow_backend]
  note u = request_body_fields
    [of "sample_page\<lparr>settings := sample_settings\<lparr>apiKey := []\<rparr>\<rparr>" slow_backend "[]" "[]" slow_backend]
  have "snd (handleStart slow_backend sample_page) =
       [\<lparr>video_path = ''/v/talk.mp4'', subtitle_text = ''00:00:01 hello'',
         api_key = ''sk-test'', style = ''blog'', base_url = None, model_req = ''gpt-4o''\<rparr>]"
    using t h s by (simp add: sample_settings_def)
  moreover have "snd (handleStart slow_backend
      (sample_page\<lparr>settings := sample_settings\<lparr>apiKey := []\<rparr>\<rparr>)) = []"
    using u n by blast
  ultimately show ?thesis using h n by blast
qed

text \<open>
  C6 as the claim states it fails where a value is not taken from the arguments: with an
  empty model the body holds the default model, and with an empty base URL the body
  holds no base URL.
\<close>

theorem request_values_counterexample:
  "model (settings bare_page) = []
   \<and> baseUrl (settings bare_page) = Some []
   \<and> p_model (start_params bare_page) = Some []
   \<and> model_req (analyze_body (start_params bare_page)) = ''gpt-4o-mini''
   \<and> snd (handleStart slow_backend bare_page) =
       [\<lparr>video_path = ''/v/talk.mp4'', subtitle_text = ''00:00:01 hello'',
         api_key = ''sk-test'', style = ''blog'', base_url = None,
         model_req = ''gpt-4o-mini''\<rparr>]"
  by (simp add: handleStart_sent start_ready_def truthy_def analyze_body_def start_params_def
      or_default_def or_undefined_def DEFAULT_MODEL_def bare_page_def sample_page_def
      sample_settings_def initialState_def)

section \<open>The health check\<close>

text \<open>
  C7. Whether the health check succeeds or fails, \<open>handleCheckHealth\<close> changes the local
  \<open>healthStatus\<close> only, first to checking and then to ok or to error: the project state
  with its fields \<open>videoPath\<close>, \<open>subtitlePath\<close>, \<open>subtitleContent\<close>, \<open>notes\<close>,
  \<open>isProcessing\<close>, \<open>processingProgress\<close> and \<open>error\<close>, the settings, the route and the
  rest of the local state are as before.
\<close>

theorem health_check_frame:
  "handleCheckHealth backend pg =
     [pg\<lparr>ui := (ui pg)\<lparr>healthStatus := Checking\<rparr>\<rparr>,
      pg\<lparr>ui := (ui pg)\<lparr>healthStatus :=
        (case checkHealth backend of Resolved r \<Rightarrow> Ok | Rejected e \<Rightarrow> Error)\<rparr>\<rparr>]
   \<and> map project (handleCheckHealth backend pg) = [project pg, project pg]
   \<and> map (\<lambda>p. videoPath (project p)) (handleCheckHealth backend pg)
       = [videoPath (project pg), videoPath (project pg)]
   \<and> map (\<lambda>p. subtitlePath (project p)) (handleCheckHealth backend pg)
       = [subtitlePath (project pg), subtitlePath (project pg)]
   \<and> map (\<lambda>p. subtitleContent (project p)) (handleCheckHealth backend pg)
       = [subtitleContent (project pg), subtitleContent (project pg)]
   \<and> map (\<lambda>p. notes_list (project p)) (handleCheckHealth backend pg)
       = [notes_list (project pg), notes_list (project pg)]
   \<and> map (\<lambda>p. isProcessing (project p)) (handleCheckHealth backend pg)
       = [isProcessing (project pg), isProcessing (project pg)]
   \<and> map (\<lambda>p. processingProgress (project p)) (handleCheckHealth backend pg)
       = [processingProgress (project pg), processingProgress (project pg)]
   \<and> map (\<lambda>p. error (project p)) (handleCheckHealth backend pg)
       = [error (project pg), error (project pg)]
   \<and> map settings (handleCheckHealth backend pg) = [settings pg, settings pg]
   \<and> map route (handleCheckHealth backend pg) = [route pg, route pg]"
proof -
  let ?checking = "pg\<lparr>ui := (ui pg)\<lparr>healthStatus := Checking\<rparr>\<rparr>"
  let ?settled = "pg\<lparr>ui := (ui pg)\<lparr>healthStatus :=
        (case checkHealth backend of Resolved r \<Rightarrow> Ok | Rejected e \<Rightarrow> Error)\<rparr>\<rparr>"
  have steps: "handleCheckHealth backend pg = [?checking, ?settled]"
  proof (cases "checkHealth backend")
    case (Resolved r)
    then show ?thesis
      by (simp add: handleCheckHealth_def Let_def setHealthStatus_def)
  next
    case (Rejected e)
    then show ?thesis
      by (simp add: handleCheckHealth_def Let_def setHealthStatus_def)
  qed
  have "project ?checking = project pg" "project ?settled = project pg"
    "settings ?checking = settings pg" "settings ?settled = settings pg"
    "route ?checking = route pg" "route ?settled = route pg"
    by simp_all
  then show ?thesis unfolding steps by simp
qed

theorem health_check_frame_witness:
  "map (\<lambda>p. healthStatus (ui p))
       (handleCheckHealth \<lparr>duration_ms = 20, settles = Rejected (Some ''Network Error'')\<rparr>
          sample_page) = [Checking, Error]
   \<and> map (\<lambda>p. healthStatus (ui p))
       (handleCheckHealth
          \<lparr>duration_ms = 20,
           settles = Resolved \<lparr>status = ''ok'', message = ''running'', version = ''1.0''\<rparr>\<rparr>
          sample_page) = [Checking, Ok]
   \<and> map project
       (handleCheckHealth \<lparr>duration_ms = 20, settles = Rejected (Some ''Network Error'')\<rparr>
          sample_page) = [project sample_page, project sample_page]"
proof -
  note a = health_check_frame
    [of "\<lparr>duration_ms = 20, settles = Rejected (Some ''Network Error'')\<rparr>" sample_page]
  note b = health_check_frame
    [of "\<lparr>duration_ms = 20,
           settles = Resolved \<lparr>status = ''ok'', message = ''running'', version = ''1.0''\<rparr>\<rparr>"
      sample_page]
  have c: "checkHealth \<lparr>duration_ms = 20, settles = Rejected (Some ''Network Error'')\<rparr>
      = Rejected (Some ''Network Error'')"
    by (simp add: checkHealth_def apiClient_request_def API_TIMEOUT_MS_def)
  have d: "checkHealth
      \<lparr>duration_ms = 20,
       settles = Resolved \<lparr>status = ''ok'', message = ''running'', version = ''1.0''\<rparr>\<rparr>
      = Resolved \<lparr>status = ''ok'', message = ''running'', version = ''1.0''\<rparr>"
    by (simp add: checkHealth_def apiClient_request_def API_TIMEOUT_MS_def)
  show ?thesis using a b by (simp add: c d)
qed

section \<open>updateNote\<close>

lemma updateNote_notes:
  "notes_list (updateNote i updates st) =
     map (\<lambda>note. if id_note note = i then merge_note note updates else note) (notes_list st)"
  by (simp add: updateNote_def)

lemma merge_note_id: "u_id updates = None \<Longrightarrow> id_note (merge_note note updates) = id_note note"
  by (simp add: merge_note_def spread_def)

lemma changed_positions_matching:
  "changed_positions (notes_list st) (notes_list (updateNote i updates st))
     = filter (\<lambda>k. id_note (notes_list st ! k) = i \<and> merge_note (notes_list st ! k) updates \<noteq> notes_list st ! k)
         [0..<length (notes_list st)]"
  unfolding changed_positions_def updateNote_notes
  by (rule filter_cong) auto

lemma distinct_filter_eq_le1:
  "distinct (map f xs) \<Longrightarrow> length (filter (\<lambda>k. f (xs ! k) = i \<and> P k) [0..<length xs]) \<le> 1"
proof (induction xs rule: rev_induct)
  case Nil
  then show ?case by simp
next
  case (snoc x xs)
  have d: "distinct (map f xs)" and nx: "f x \<notin> f ` set xs"
    using snoc.prems by auto
  have same: "filter (\<lambda>k. f ((xs @ [x]) ! k) = i \<and> P k) [0..<length xs]
      = filter (\<lambda>k. f (xs ! k) = i \<and> P k) [0..<length xs]"
    by (rule filter_cong) (auto simp: nth_append)
  show ?case
  proof (cases "f x = i")
    case True
    have "filter (\<lambda>k. f (xs ! k) = i \<and> P k) [0..<length xs] = []"
      using nx True by (auto simp: filter_empty_conv) (metis imageI nth_mem)
    then show ?thesis using same by simp
  next
    case False
    then show ?thesis using same snoc.IH [OF d] by simp
  qed
qed

text \<open>
  C8 (as amended). For every project state, id and update object without the \<open>id\<close> field,
  \<open>updateNote\<close> keeps the length and the order of the note list and the id of every
  note; the note at each position is the merged note (the given fields written over the
  note's, \<open>isEdited\<close> true, same id) when its id matches and the old note otherwise; every
  changed position holds a note with the given id; when the ids are pairwise distinct at
  most one position changes; when no note has the id the list is unchanged; and no other
  field of the project state changes.
\<close>

theorem updateNote_frame:
  "u_id updates = None \<Longrightarrow>
     length (notes_list (updateNote i updates st)) = length (notes_list st)
   \<and> map id_note (notes_list (updateNote i updates st)) = map id_note (notes_list st)
   \<and> (\<forall>k < length (notes_list st).
        notes_list (updateNote i updates st) ! k =
          (if id_note (notes_list st ! k) = i then merge_note (notes_list st ! k) updates
           else notes_list st ! k))
   \<and> (\<forall>k < length (notes_list st). id_note (notes_list st ! k) = i \<longrightarrow>
        isEdited (notes_list (updateNote i updates st) ! k)
        \<and> id_note (notes_list (updateNote i updates st) ! k) = i)
   \<and> (\<forall>k \<in> set (changed_positions (notes_list st) (notes_list (updateNote i updates st))).
        id_note (notes_list st ! k) = i)
   \<and> (distinct (map id_note (notes_list st)) \<longrightarrow>
        length (changed_positions (notes_list st) (notes_list (updateNote i updates st))) \<le> 1)
   \<and> (i \<notin> id_note ` set (notes_list st) \<longrightarrow> updateNote i updates st = st)
   \<and> updateNote i updates st = st\<lparr>notes_list := notes_list (updateNote i updates st)\<rparr>"
proof -
  assume noid: "u_id updates = None"
  let ?new = "notes_list (updateNote i updates st)"
  have len: "length ?new = length (notes_list st)"
    by (simp add: updateNote_notes)
  have ids: "map id_note ?new = map id_note (notes_list st)"
    by (simp add: updateNote_notes merge_note_id [OF noid])
  have pos: "\<forall>k < length (notes_list st). ?new ! k =
      (if id_note (notes_list st ! k) = i then merge_note (notes_list st ! k) updates else notes_list st ! k)"
    by (simp add: updateNote_notes)
  have edited: "\<forall>k < length (notes_list st). id_note (notes_list st ! k) = i \<longrightarrow>
      isEdited (?new ! k) \<and> id_note (?new ! k) = i"
    using pos noid by (simp add: merge_note_def spread_def)
  have chg: "\<forall>k \<in> set (changed_positions (notes_list st) ?new). id_note (notes_list st ! k) = i"
    by (simp add: changed_positions_matching)
  have one: "distinct (map id_note (notes_list st)) \<longrightarrow>
      length (changed_positions (notes_list st) ?new) \<le> 1"
    unfolding changed_positions_matching by (rule impI) (rule distinct_filter_eq_le1)
  have none: "i \<notin> id_note ` set (notes_list st) \<longrightarrow> updateNote i updates st = st"
  proof
    assume a: "i \<notin> id_note ` set (notes_list st)"
    have "map (\<lambda>note. if id_note note = i then merge_note note updates else note) (notes_list st)
        = map (\<lambda>note. note) (notes_list st)"
      by (rule map_cong) (use a in auto)
    then show "updateNote i updates st = st"
      by (simp add: updateNote_def)
  qed
  have rest: "updateNote i updates st = st\<lparr>notes_list := ?new\<rparr>"
    by (simp add: updateNote_def)
  from len ids pos edited chg one none rest show ?thesis by blast
qed

theorem updateNote_frame_witness:
  "u_id retitle = None
   \<and> notes_list (updateNote ''b'' retitle (setNotes [note_a, note_b] initialState))
       = [note_a, note_b\<lparr>title := ''New title'', isEdited := True\<rparr>]
   \<and> changed_positions [note_a, note_b]
        (notes_list (updateNote ''b'' retitle (setNotes [note_a, note_b] initialState))) = [1]
   \<and> updateNote ''zz'' retitle (setNotes [note_a, note_b] initialState)
       = setNotes [note_a, note_b] initialState"
proof -
  have h: "u_id retitle = None"
    by (simp add: retitle_def no_updates_def)
  have n: "notes_list (setNotes [note_a, note_b] initialState) = [note_a, note_b]"
    by (simp add: setNotes_def)
  have ids: "id_note note_a = ''a''" "id_note note_b = ''b''"
    by (simp_all add: note_a_def note_b_def)
  note t = updateNote_frame [OF h, of "''b''" "setNotes [note_a, note_b] initialState"]
  note z = updateNote_frame [OF h, of "''zz''" "setNotes [note_a, note_b] initialState"]
  have m: "merge_note note_b retitle = note_b\<lparr>title := ''New title'', isEdited := True\<rparr>"
    by (simp add: merge_note_def retitle_def no_updates_def spread_def note_b_def)
  have new: "notes_list (updateNote ''b'' retitle (setNotes [note_a, note_b] initialState))
      = [note_a, note_b\<lparr>title := ''New title'', isEdited := True\<rparr>]"
  proof (rule nth_equalityI)
    show "length (notes_list (updateNote ''b'' retitle (setNotes [note_a, note_b] initialState)))
        = length [note_a, note_b\<lparr>title := ''New title'', isEdited := True\<rparr>]"
      using t n by simp
  next
    fix k
    assume "k < length (notes_list (updateNote ''b'' retitle (setNotes [note_a, note_b] initialState)))"
    then have "k < 2" using t n by simp
    then have "k = 0 \<or> k = 1" by auto
    then show "notes_list (updateNote ''b'' retitle (setNotes [note_a, note_b] initialState)) ! k
        = [note_a, note_b\<lparr>title := ''New title'', isEdited := True\<rparr>] ! k"
      using t n ids m by auto
  qed
  have c: "changed_positions [note_a, note_b]
      [note_a, note_b\<lparr>title := ''New title'', isEdited := True\<rparr>] = [1]"
    by (simp add: changed_positions_def note_b_def upt_rec)
  have u: "updateNote ''zz'' retitle (setNotes [note_a, note_b] initialState)
      = setNotes [note_a, note_b] initialState"
    using z n ids by simp
  from h new c u show ?thesis by simp
qed

text \<open>
  C8 as the claim states it fails on a list in which two notes_list share the id: both are
  changed, not a single one.
\<close>

theorem updateNote_single_counterexample:
  "u_id retitle = None
   \<and> changed_positions [note_a, note_b, note_a2]
        (notes_list (updateNote ''a'' retitle (setNotes [note_a, note_b, note_a2] initialState)))
       = [0, 2]"
  by (simp add: changed_positions_def updateNote_def setNotes_def merge_note_def spread_def
      retitle_def no_updates_def note_a_def note_b_def note_a2_def upt_rec)

section \<open>The markdown export\<close>

lemma fold_push: "fold push ls lines = lines @ ls"
  by (induction ls arbitrary: lines) (simp_all add: push_def)

lemma toc_forEach_append:
  "toc_forEach k ns lines = lines @ map (\<lambda>(index, n). toc_entry index n) (enumerate k ns)"
  by (induction ns arbitrary: k lines) (simp_all add: push_def)

lemma push_note_append: "push_note imageMode n lines = lines @ note_block n"
  by (simp add: push_note_def note_block_def fold_push push_def Let_def)

lemma notes_forEach_append:
  "notes_forEach imageMode ns lines = lines @ concat (map note_block ns)"
  by (induction ns arbitrary: lines) (simp_all add: push_note_append)

lemma markdown_lines_eq:
  "markdown_lines ns vp imageMode =
     [''# '' @ videoName vp, [], MSG_GENERATED_BY, [], ''---'', [], MSG_CONTENTS, []]
     @ toc_entries ns @ [[], ''---'', []] @ concat (map note_block ns)"
  by (simp add: markdown_lines_def Let_def push_def toc_forEach_append notes_forEach_append
      toc_entries_def)

lemma join_lines:
  "ls \<noteq> [] \<Longrightarrow> join sep ls @ sep = concat (map (\<lambda>l. l @ sep) ls)"
  by (induction sep ls rule: join.induct) simp_all

lemma concat_toc_entries:
  "concat (map (\<lambda>l. l @ [CHR 0x0A]) (toc_entries ns))
     = concat (map (\<lambda>(index, n). toc_entry index n @ [CHR 0x0A]) (enumerate 0 ns))"
  by (simp add: toc_entries_def split_def comp_def)

lemma concat_note_blocks:
  "concat (map (\<lambda>l. l @ [CHR 0x0A]) (concat (map note_block ns)))
     = concat (map (\<lambda>n. concat (map (\<lambda>l. l @ [CHR 0x0A]) (note_block n))) ns)"
  by (induction ns) simp_all

lemma note_block_lines:
  "concat (map (\<lambda>l. l @ [CHR 0x0A]) (note_block n)) =
     ''## '' @ title n @ '' {#'' @ filter (\<lambda>c. c \<noteq> CHR '':'') (timestamp n) @ ''}''
     @ [CHR 0x0A, CHR 0x0A]
     @ MSG_TIMESTAMP @ timestamp n @ ''`'' @ [CHR 0x0A, CHR 0x0A]
     @ (if imagePath n = [] then []
        else ''!['' @ title n @ ''](''  @ imagePath n @ '')'' @ [CHR 0x0A, CHR 0x0A])
     @ content n @ [CHR 0x0A, CHR 0x0A]
     @ ''---'' @ [CHR 0x0A, CHR 0x0A]"
  by (cases "imagePath n = []") (simp_all add: note_block_def image_line_def anchor_def)

lemma toc_entry_line:
  "toc_entry index n @ [CHR 0x0A] =
     show_nat (index + 1) @ ''. ['' @ title n @ ''](#''
     @ filter (\<lambda>c. c \<noteq> CHR '':'') (timestamp n) @ '')'' @ [CHR 0x0A]"
  by (simp add: toc_entry_def anchor_def)

text \<open>
  C9. \<open>generateMarkdown\<close> is a function of the notes, the video path and the image mode,
  and the image mode does not matter: the base64 mode gives the same string as the path
  mode. The returned string is, line by line with a newline between the lines: the title
  lines, the table of contents with one entry per note, a separator, and one block per
  note in the order of the list. The block of a note, in either mode, is its heading and
  timestamp lines, then the image line with the local path and an empty line exactly
  when \<open>imagePath\<close> is not empty, then its content and the separator.
\<close>

theorem generateMarkdown_modes:
  "generateMarkdown ns vp Base64 = generateMarkdown ns vp Path
   \<and> generateMarkdown ns vp imageMode @ [CHR 0x0A] =
       ''# '' @ videoName vp @ [CHR 0x0A, CHR 0x0A]
       @ MSG_GENERATED_BY @ [CHR 0x0A, CHR 0x0A]
       @ ''---'' @ [CHR 0x0A, CHR 0x0A]
       @ MSG_CONTENTS @ [CHR 0x0A, CHR 0x0A]
       @ concat (map (\<lambda>(index, n).
            show_nat (index + 1) @ ''. ['' @ title n @ ''](#''
            @ filter (\<lambda>c. c \<noteq> CHR '':'') (timestamp n) @ '')'' @ [CHR 0x0A])
          (enumerate 0 ns))
       @ [CHR 0x0A] @ ''---'' @ [CHR 0x0A, CHR 0x0A]
       @ concat (map (\<lambda>n.
            ''## '' @ title n @ '' {#'' @ filter (\<lambda>c. c \<noteq> CHR '':'') (timestamp n) @ ''}''
            @ [CHR 0x0A, CHR 0x0A]
            @ MSG_TIMESTAMP @ timestamp n @ ''`'' @ [CHR 0x0A, CHR 0x0A]
            @ (if imagePath n = [] then []
               else ''!['' @ title n @ ''](''  @ imagePath n @ '')'' @ [CHR 0x0A, CHR 0x0A])
            @ content n @ [CHR 0x0A, CHR 0x0A]
            @ ''---'' @ [CHR 0x0A, CHR 0x0A])
          ns)
   \<and> push_note imageMode n lines =
       lines
       @ [''## '' @ title n @ '' {#'' @ anchor (timestamp n) @ ''}'', [],
          MSG_TIMESTAMP @ timestamp n @ ''`'', []]
       @ (if imagePath n = [] then []
          else [''!['' @ title n @ ''](''  @ imagePath n @ '')'', []])
       @ [content n, [], ''---'', []]
   \<and> length (note_block n) = (if imagePath n = [] then 8 else 10)"
proof -
  have modes: "generateMarkdown ns vp Base64 = generateMarkdown ns vp Path"
    by (simp add: generateMarkdown_def markdown_lines_eq)
  have "markdown_lines ns vp imageMode \<noteq> []"
    by (simp add: markdown_lines_eq)
  then have "generateMarkdown ns vp imageMode @ [CHR 0x0A]
      = concat (map (\<lambda>l. l @ [CHR 0x0A]) (markdown_lines ns vp imageMode))"
    unfolding generateMarkdown_def by (rule join_lines)
  also have "\<dots> =
       ''# '' @ videoName vp @ [CHR 0x0A, CHR 0x0A]
       @ MSG_GENERATED_BY @ [CHR 0x0A, CHR 0x0A]
       @ ''---'' @ [CHR 0x0A, CHR 0x0A]
       @ MSG_CONTENTS @ [CHR 0x0A, CHR 0x0A]
       @ concat (map (\<lambda>(index, n). toc_entry index n @ [CHR 0x0A]) (enumerate 0 ns))
       @ [CHR 0x0A] @ ''---'' @ [CHR 0x0A, CHR 0x0A]
       @ concat (map (\<lambda>n. concat (map (\<lambda>l. l @ [CHR 0x0A]) (note_block n))) ns)"
    by (simp add: markdown_lines_eq concat_toc_entries concat_note_blocks)
  finally have returned: "generateMarkdown ns vp imageMode @ [CHR 0x0A] =
       ''# '' @ videoName vp @ [CHR 0x0A, CHR 0x0A]
       @ MSG_GENERATED_BY @ [CHR 0x0A, CHR 0x0A]
       @ ''---'' @ [CHR 0x0A, CHR 0x0A]
       @ MSG_CONTENTS @ [CHR 0x0A, CHR 0x0A]
       @ concat (map (\<lambda>(index, n).
            show_nat (index + 1) @ ''. ['' @ title n @ ''](#''
            @ filter (\<lambda>c. c \<noteq> CHR '':'') (timestamp n) @ '')'' @ [CHR 0x0A])
          (enumerate 0 ns))
       @ [CHR 0x0A] @ ''---'' @ [CHR 0x0A, CHR 0x0A]
       @ concat (map (\<lambda>n.
            ''## '' @ title n @ '' {#'' @ filter (\<lambda>c. c \<noteq> CHR '':'') (timestamp n) @ ''}''
            @ [CHR 0x0A, CHR 0x0A]
            @ MSG_TIMESTAMP @ timestamp n @ ''`'' @ [CHR 0x0A, CHR 0x0A]
            @ (if imagePath n = [] then []
               else ''!['' @ title n @ ''](''  @ imagePath n @ '')'' @ [CHR 0x0A, CHR 0x0A])
            @ content n @ [CHR 0x0A, CHR 0x0A]
            @ ''---'' @ [CHR 0x0A, CHR 0x0A])
          ns)"
    unfolding note_block_lines toc_entry_line .
  have block: "push_note imageMode n lines =
       lines
       @ [''## '' @ title n @ '' {#'' @ anchor (timestamp n) @ ''}'', [],
          MSG_TIMESTAMP @ timestamp n @ ''`'', []]
       @ (if imagePath n = [] then []
          else [''!['' @ title n @ ''](''  @ imagePath n @ '')'', []])
       @ [content n, [], ''---'', []]"
    by (simp add: push_note_append note_block_def image_line_def)
  have len: "length (note_block n) = (if imagePath n = [] then 8 else 10)"
    by (simp add: note_block_def)
  from modes returned block len show ?thesis
    by (intro conjI)
qed

theorem generateMarkdown_modes_witness:
  "generateMarkdown [note_a, note_b] (Some ''/v/talk.mp4'') Base64 =
     ''# talk'' @ [CHR 0x0A, CHR 0x0A]
     @ (''> '' @ [CHR 0xE7, CHR 0x94, CHR 0xB1] @ '' Video2Note '' @ [CHR 0xE8, CHR 0x87, CHR 0xAA, CHR 0xE5, CHR 0x8A, CHR 0xA8, CHR 0xE7, CHR 0x94, CHR 0x9F, CHR 0xE6, CHR 0x88, CHR 0x90]) @ [CHR 0x0A, CHR 0x0A]
     @ ''---'' @ [CHR 0x0A, CHR 0x0A]
     @ (''## '' @ [CHR 0xE7, CHR 0x9B, CHR 0xAE, CHR 0xE5, CHR 0xBD, CHR 0x95]) @ [CHR 0x0A, CHR 0x0A]
     @ ''1. [Intro](#010)'' @ [CHR 0x0A]
     @ ''2. [Setup](#105)'' @ [CHR 0x0A]
     @ [CHR 0x0A] @ ''---'' @ [CHR 0x0A, CHR 0x0A]
     @ ''## Intro {#010}'' @ [CHR 0x0A, CHR 0x0A]
     @ (''**'' @ [CHR 0xE6, CHR 0x97, CHR 0xB6, CHR 0xE9, CHR 0x97, CHR 0xB4, CHR 0xE6, CHR 0x88, CHR 0xB3] @ ''**: `'') @ ''0:10`'' @ [CHR 0x0A, CHR 0x0A]
     @ ''![Intro](/tmp/a.jpg)'' @ [CHR 0x0A, CHR 0x0A]
     @ ''first'' @ [CHR 0x0A, CHR 0x0A]
     @ ''---'' @ [CHR 0x0A, CHR 0x0A]
     @ ''## Setup {#105}'' @ [CHR 0x0A, CHR 0x0A]
     @ (''**'' @ [CHR 0xE6, CHR 0x97, CHR 0xB6, CHR 0xE9, CHR 0x97, CHR 0xB4, CHR 0xE6, CHR 0x88, CHR 0xB3] @ ''**: `'') @ ''1:05`'' @ [CHR 0x0A, CHR 0x0A]
     @ ''second'' @ [CHR 0x0A, CHR 0x0A]
     @ ''---'' @ [CHR 0x0A]
   \<and> generateMarkdown [note_a, note_b] (Some ''/v/talk.mp4'') Path
       = generateMarkdown [note_a, note_b] (Some ''/v/talk.mp4'') Base64
   \<and> push_note Base64 note_a [] =
       [''## Intro {#010}'', [], (''**'' @ [CHR 0xE6, CHR 0x97, CHR 0xB6, CHR 0xE9, CHR 0x97, CHR 0xB4, CHR 0xE6, CHR 0x88, CHR 0xB3] @ ''**: `'') @ ''0:10`'', [],
        ''![Intro](/tmp/a.jpg)'', [], ''first'', [], ''---'', []]
   \<and> push_note Base64 note_b [] =
       [''## Setup {#105}'', [], (''**'' @ [CHR 0xE6, CHR 0x97, CHR 0xB6, CHR 0xE9, CHR 0x97, CHR 0xB4, CHR 0xE6, CHR 0x88, CHR 0xB3] @ ''**: `'') @ ''1:05`'', [], ''second'', [], ''---'', []]"
proof -
  note t = generateMarkdown_modes [of "[note_a, note_b]" "Some ''/v/talk.mp4''" Base64 note_a "[]"]
  note u = generateMarkdown_modes [of "[note_a, note_b]" "Some ''/v/talk.mp4''" Base64 note_b "[]"]
  have name: "videoName (Some ''/v/talk.mp4'') = ''talk''"
    by (simp add: videoName_def strip_extension_def last_segment_def is_separator_def
        or_default_def Let_def)
  have "generateMarkdown [note_a, note_b] (Some ''/v/talk.mp4'') Base64 @ [CHR 0x0A] =
     (''# talk'' @ [CHR 0x0A, CHR 0x0A]
     @ (''> '' @ [CHR 0xE7, CHR 0x94, CHR 0xB1] @ '' Video2Note '' @ [CHR 0xE8, CHR 0x87, CHR 0xAA, CHR 0xE5, CHR 0x8A, CHR 0xA8, CHR 0xE7, CHR 0x94, CHR 0x9F, CHR 0xE6, CHR 0x88, CHR 0x90]) @ [CHR 0x0A, CHR 0x0A]
     @ ''---'' @ [CHR 0x0A, CHR 0x0A]
     @ (''## '' @ [CHR 0xE7, CHR 0x9B, CHR 0xAE, CHR 0xE5, CHR 0xBD, CHR 0x95]) @ [CHR 0x0A, CHR 0x0A]
     @ ''1. [Intro](#010)'' @ [CHR 0x0A]
     @ ''2. [Setup](#105)'' @ [CHR 0x0A]
     @ [CHR 0x0A] @ ''---'' @ [CHR 0x0A, CHR 0x0A]
     @ ''## Intro {#010}'' @ [CHR 0x0A, CHR 0x0A]
     @ (''**'' @ [CHR 0xE6, CHR 0x97, CHR 0xB6, CHR 0xE9, CHR 0x97, CHR 0xB4, CHR 0xE6, CHR 0x88, CHR 0xB3] @ ''**: `'') @ ''0:10`'' @ [CHR 0x0A, CHR 0x0A]
     @ ''![Intro](/tmp/a.jpg)'' @ [CHR 0x0A, CHR 0x0A]
     @ ''first'' @ [CHR 0x0A, CHR 0x0A]
     @ ''---'' @ [CHR 0x0A, CHR 0x0A]
     @ ''## Setup {#105}'' @ [CHR 0x0A, CHR 0x0A]
     @ (''**'' @ [CHR 0xE6, CHR 0x97, CHR 0xB6, CHR 0xE9, CHR 0x97, CHR 0xB4, CHR 0xE6, CHR 0x88, CHR 0xB3] @ ''**: `'') @ ''1:05`'' @ [CHR 0x0A, CHR 0x0A]
     @ ''second'' @ [CHR 0x0A, CHR 0x0A]
     @ ''---'' @ [CHR 0x0A]) @ [CHR 0x0A]"
    unfolding t [THEN conjunct2, THEN conjunct1] name
    by (simp add: note_a_def note_b_def enumerate_eq_zip upt_rec eval_string
        MSG_GENERATED_BY_def MSG_CONTENTS_def MSG_TIMESTAMP_def)
  then have whole: "generateMarkdown [note_a, note_b] (Some ''/v/talk.mp4'') Base64 =
     ''# talk'' @ [CHR 0x0A, CHR 0x0A]
     @ (''> '' @ [CHR 0xE7, CHR 0x94, CHR 0xB1] @ '' Video2Note '' @ [CHR 0xE8, CHR 0x87, CHR 0xAA, CHR 0xE5, CHR 0x8A, CHR 0xA8, CHR 0xE7, CHR 0x94, CHR 0x9F, CHR 0xE6, CHR 0x88, CHR 0x90]) @ [CHR 0x0A, CHR 0x0A]
     @ ''---'' @ [CHR 0x0A, CHR 0x0A]
     @ (''## '' @ [CHR 0xE7, CHR 0x9B, CHR 0xAE, CHR 0xE5, CHR 0xBD, CHR 0x95]) @ [CHR 0x0A, CHR 0x0A]
     @ ''1. [Intro](#010)'' @ [CHR 0x0A]
     @ ''2. [Setup](#105)'' @ [CHR 0x0A]
     @ [CHR 0x0A] @ ''---'' @ [CHR 0x0A, CHR 0x0A]
     @ ''## Intro {#010}'' @ [CHR 0x0A, CHR 0x0A]
     @ (''**'' @ [CHR 0xE6, CHR 0x97, CHR 0xB6, CHR 0xE9, CHR 0x97, CHR 0xB4, CHR 0xE6, CHR 0x88, CHR 0xB3] @ ''**: `'') @ ''0:10`'' @ [CHR 0x0A, CHR 0x0A]
     @ ''![Intro](/tmp/a.jpg)'' @ [CHR 0x0A, CHR 0x0A]
     @ ''first'' @ [CHR 0x0A, CHR 0x0A]
     @ ''---'' @ [CHR 0x0A, CHR 0x0A]
     @ ''## Setup {#105}'' @ [CHR 0x0A, CHR 0x0A]
     @ (''**'' @ [CHR 0xE6, CHR 0x97, CHR 0xB6, CHR 0xE9, CHR 0x97, CHR 0xB4, CHR 0xE6, CHR 0x88, CHR 0xB3] @ ''**: `'') @ ''1:05`'' @ [CHR 0x0A, CHR 0x0A]
     @ ''second'' @ [CHR 0x0A, CHR 0x0A]
     @ ''---'' @ [CHR 0x0A]"
    by (rule append_same_eq [THEN iffD1])
  have same: "generateMarkdown [note_a, note_b] (Some ''/v/talk.mp4'') Path
       = generateMarkdown [note_a, note_b] (Some ''/v/talk.mp4'') Base64"
    using t by simp
  have blocks: "push_note Base64 note_a [] =
       [''## Intro {#010}'', [], (''**'' @ [CHR 0xE6, CHR 0x97, CHR 0xB6, CHR 0xE9, CHR 0x97, CHR 0xB4, CHR 0xE6, CHR 0x88, CHR 0xB3] @ ''**: `'') @ ''0:10`'', [],
        ''![Intro](/tmp/a.jpg)'', [], ''first'', [], ''---'', []]"
    "push_note Base64 note_b [] =
       [''## Setup {#105}'', [], (''**'' @ [CHR 0xE6, CHR 0x97, CHR 0xB6, CHR 0xE9, CHR 0x97, CHR 0xB4, CHR 0xE6, CHR 0x88, CHR 0xB3] @ ''**: `'') @ ''1:05`'', [], ''second'', [], ''---'', []]"
    using t u by (simp_all add: note_a_def note_b_def anchor_def MSG_TIMESTAMP_def)
  from whole same blocks show ?thesis
    by (intro conjI)
qed

section \<open>The file dialogs\<close>

text \<open>
  C10 (as amended). \<open>select-video-file\<close> always returns: null exactly when the dialog was
  canceled or no file was chosen, and the first selected path otherwise.
  \<open>select-subtitle-file\<close> returns null exactly under the same condition; otherwise it
  reads the first selected file and returns the pair of the path and the file's text when
  the file can be read, and throws when it cannot: it has no handler for the failure of
  the read.
\<close>

theorem file_selection_results:
  "(select_video_file result = None \<longleftrightarrow> canceled result \<or> filePaths result = [])
   \<and> (\<not> canceled result \<and> filePaths result = p # ps \<longrightarrow> select_video_file result = Some p)
   \<and> (select_subtitle_file fs result = Inr None \<longleftrightarrow> canceled result \<or> filePaths result = [])
   \<and> (\<not> canceled result \<and> filePaths result = p # ps \<and> fs p = Some text \<longrightarrow>
        select_subtitle_file fs result = Inr (Some \<lparr>path = p, file_content = text\<rparr>))
   \<and> (\<not> canceled result \<and> filePaths result = p # ps \<and> fs p = None \<longrightarrow>
        select_subtitle_file fs result = Inl (ReadFailed p))"
  by (auto simp: select_video_file_def select_subtitle_file_def readFileSync_def Let_def
      split: option.splits sum.splits)

theorem file_selection_results_witness:
  "select_video_file \<lparr>canceled = False, filePaths = [''/v/talk.mp4'', ''/v/other.mp4'']\<rparr>
     = Some ''/v/talk.mp4''
   \<and> select_video_file \<lparr>canceled = True, filePaths = [''/v/talk.mp4'']\<rparr> = None
   \<and> select_subtitle_file [''/v/talk.srt'' \<mapsto> ''00:00:01 hello'']
       \<lparr>canceled = False, filePaths = [''/v/talk.srt'']\<rparr>
       = Inr (Some \<lparr>path = ''/v/talk.srt'', file_content = ''00:00:01 hello''\<rparr>)
   \<and> select_subtitle_file [''/v/talk.srt'' \<mapsto> ''00:00:01 hello'']
       \<lparr>canceled = False, filePaths = []\<rparr> = Inr None
   \<and> select_subtitle_file [''/v/talk.srt'' \<mapsto> ''00:00:01 hello'']
       \<lparr>canceled = False, filePaths = [''/v/gone.srt'']\<rparr> = Inl (ReadFailed ''/v/gone.srt'')"
  using file_selection_results
      [of "\<lparr>canceled = False, filePaths = [''/v/gone.srt'']\<rparr>"
        "''/v/gone.srt''" "[]" "[''/v/talk.srt'' \<mapsto> ''00:00:01 hello'']" "[]"]
    file_selection_results
      [of "\<lparr>canceled = False, filePaths = [''/v/talk.mp4'', ''/v/other.mp4'']\<rparr>"
        "''/v/talk.mp4''" "[''/v/other.mp4'']" "[''/v/talk.srt'' \<mapsto> ''00:00:01 hello'']" "[]"]
    file_selection_results
      [of "\<lparr>canceled = True, filePaths = [''/v/talk.mp4'']\<rparr>"
        "''/v/talk.mp4''" "[]" "[''/v/talk.srt'' \<mapsto> ''00:00:01 hello'']" "[]"]
    file_selection_results
      [of "\<lparr>canceled = False, filePaths = [''/v/talk.srt'']\<rparr>"
        "''/v/talk.srt''" "[]" "[''/v/talk.srt'' \<mapsto> ''00:00:01 hello'']" "''00:00:01 hello''"]
    file_selection_results
      [of "\<lparr>canceled = False, filePaths = []\<rparr>"
        "''/v/talk.srt''" "[]" "[''/v/talk.srt'' \<mapsto> ''00:00:01 hello'']" "[]"]
  by simp

text \<open>
  C10 as the claim states it fails: when the chosen subtitle file cannot be read, the
  handler neither returns null nor the pair of path and content.
\<close>

theorem subtitle_read_counterexample:
  "select_subtitle_file Map.empty \<lparr>canceled = False, filePaths = [''/v/talk.srt'']\<rparr>
     = Inl (ReadFailed ''/v/talk.srt'')"
  by (simp add: select_subtitle_file_def readFileSync_def)

end
